theory Spec2Isabelle
  imports Complex_Main "HOL-Library.Sublist"
begin

section \<open>The goal store of bot.py\<close>

text \<open>
  The bot keeps one SQLite table, \<open>goals\<close>, created by \<open>init_db\<close>:
  \<^verbatim>\<open>id INTEGER PRIMARY KEY AUTOINCREMENT, user_id INTEGER NOT NULL, text TEXT NOT NULL,
  is_done INTEGER NOT NULL DEFAULT 0, created_at TEXT NOT NULL\<close>.
  A row is a record with the five columns. Python strings are sequences of Unicode code
  points, so a string is a list of code points (natural numbers). The statements are read
  at the level of their SQL meaning, over the mathematical integers. The user id that
  reaches the store is the id of the Telegram sender and the ids in the table are those
  SQLite has assigned; the goal id that \<open>mark_done\<close> and \<open>delete_goal\<close> receive is typed
  by the user, and its range is checked where the statement binds it. The column \<open>created_at\<close> holds the ISO rendering of the instant returned
  by \<open>datetime.utcnow()\<close>; the model stores that instant itself (microseconds on the UTC
  time line).
\<close>

type_synonym pystr = "nat list"

type_synonym datetime = int

record goal =
  goal_id :: int
  user_id :: int
  goal_text :: pystr
  is_done :: int
  created_at :: datetime

text \<open>
  The table is its rows, in insertion order, together with the counter that SQLite keeps
  for an AUTOINCREMENT key (the entry of \<open>sqlite_sequence\<close>: the largest row id the table
  has ever held).
\<close>

record goals_table =
  tbl_rows :: "goal list"
  tbl_seq :: int

subsection \<open>init_db\<close>

text \<open>
  \<open>CREATE TABLE IF NOT EXISTS\<close>: a database file without the table gets an empty one,
  an existing table is left as it is. \<open>main\<close> runs \<open>init_db\<close> before the first message
  is received, so every other operation works on an existing table.
\<close>

definition empty_table :: goals_table where
  "empty_table = \<lparr>tbl_rows = [], tbl_seq = 0\<rparr>"

definition init_db :: "goals_table option \<Rightarrow> goals_table" where
  "init_db file = (case file of None \<Rightarrow> empty_table | Some t \<Rightarrow> t)"

subsection \<open>add_goal\<close>

text \<open>
  The INSERT names no id, so SQLite assigns one: with AUTOINCREMENT it is one more than
  the largest id that has ever been in the table. The function returns
  \<open>cur.lastrowid\<close>, the id of the inserted row. \<open>now\<close> is the value that
  \<open>datetime.utcnow()\<close> returns inside the call.
\<close>

definition next_rowid :: "goals_table \<Rightarrow> int" where
  "next_rowid t = max (tbl_seq t) (foldr max (map goal_id (tbl_rows t)) 0) + 1"

definition add_goal :: "int \<Rightarrow> pystr \<Rightarrow> datetime \<Rightarrow> goals_table \<Rightarrow> int \<times> goals_table" where
  "add_goal uid txt now t =
     (let lastrowid = next_rowid t;
          row = \<lparr>goal_id = lastrowid, user_id = uid, goal_text = txt, is_done = 0,
                 created_at = now\<rparr>
      in (lastrowid, \<lparr>tbl_rows = tbl_rows t @ [row], tbl_seq = lastrowid\<rparr>))"

subsection \<open>list_goals\<close>

text \<open>
  \<open>SELECT id, text, is_done FROM goals WHERE user_id=? ORDER BY id DESC\<close>: the rows of
  the user, sorted by id, largest first, projected to three columns.
\<close>

definition list_goals :: "int \<Rightarrow> goals_table \<Rightarrow> (int \<times> pystr \<times> int) list" where
  "list_goals uid t =
     map (\<lambda>g. (goal_id g, goal_text g, is_done g))
       (rev (sort_key goal_id (filter (\<lambda>g. user_id g = uid) (tbl_rows t))))"

subsection \<open>mark_done and delete_goal\<close>

text \<open>
  Both statements select with \<open>WHERE id=? AND user_id=?\<close> and both functions return
  \<open>cur.rowcount\<close>, the number of rows the WHERE clause matched. \<open>sql_update\<close> and
  \<open>sql_delete\<close> are the two statements on the table. The parameter order is that of the
  Python functions: the user first, the goal id second.
\<close>

definition matches :: "int \<Rightarrow> int \<Rightarrow> goal \<Rightarrow> bool" where
  "matches uid gid g \<longleftrightarrow> goal_id g = gid \<and> user_id g = uid"

definition sql_update :: "int \<Rightarrow> int \<Rightarrow> goals_table \<Rightarrow> int \<times> goals_table" where
  "sql_update uid gid t =
     (int (length (filter (matches uid gid) (tbl_rows t))),
      t\<lparr>tbl_rows := map (\<lambda>g. if matches uid gid g then g\<lparr>is_done := 1\<rparr> else g) (tbl_rows t)\<rparr>)"

definition sql_delete :: "int \<Rightarrow> int \<Rightarrow> goals_table \<Rightarrow> int \<times> goals_table" where
  "sql_delete uid gid t =
     (int (length (filter (matches uid gid) (tbl_rows t))),
      t\<lparr>tbl_rows := filter (\<lambda>g. \<not> matches uid gid g) (tbl_rows t)\<rparr>)"

text \<open>
  Before the statement runs, \<open>db.execute\<close> binds the parameters \<open>(goal_id, user_id)\<close>. An
  SQLite INTEGER is a signed 64-bit number; a Python integer outside that range cannot be
  bound, and \<open>execute\<close> raises \<open>OverflowError\<close> with the table untouched. The goal id is
  \<open>int(command.args)\<close> of a digit string of any length, so the case is reachable.
\<close>

datatype exn = ValueError | AttributeError | OverflowError

definition sqlite_int :: "int \<Rightarrow> bool" where
  "sqlite_int x \<longleftrightarrow> - (2 ^ 63) \<le> x \<and> x < 2 ^ 63"

definition mark_done :: "int \<Rightarrow> int \<Rightarrow> goals_table \<Rightarrow> exn + int \<times> goals_table" where
  "mark_done uid gid t =
     (if sqlite_int gid \<and> sqlite_int uid then Inr (sql_update uid gid t)
      else Inl OverflowError)"

definition delete_goal :: "int \<Rightarrow> int \<Rightarrow> goals_table \<Rightarrow> exn + int \<times> goals_table" where
  "delete_goal uid gid t =
     (if sqlite_int gid \<and> sqlite_int uid then Inr (sql_delete uid gid t)
      else Inl OverflowError)"

subsection \<open>Sequences of store operations\<close>

text \<open>
  The store is only ever changed through the four functions. A history of the store is a
  list of calls; \<open>run\<close> applies them in order and returns the table they leave. A call
  that raises leaves the table as it was.
\<close>

datatype store_op =
    AddGoal int pystr datetime
  | ListGoals int
  | MarkDone int int
  | DeleteGoal int int

fun apply_op :: "store_op \<Rightarrow> goals_table \<Rightarrow> goals_table" where
  "apply_op (AddGoal uid txt now) t = snd (add_goal uid txt now t)"
| "apply_op (ListGoals uid) t = t"
| "apply_op (MarkDone uid gid) t =
     (case mark_done uid gid t of Inl e \<Rightarrow> t | Inr r \<Rightarrow> snd r)"
| "apply_op (DeleteGoal uid gid) t =
     (case delete_goal uid gid t of Inl e \<Rightarrow> t | Inr r \<Rightarrow> snd r)"

fun run :: "store_op list \<Rightarrow> goals_table \<Rightarrow> goals_table" where
  "run [] t = t"
| "run (c # cs) t = run cs (apply_op c t)"

text \<open>
  The invariant of the table: ids are unique (the primary key), no id exceeds the
  AUTOINCREMENT counter, and \<open>is_done\<close> is 0 or 1.
\<close>

definition wf_table :: "goals_table \<Rightarrow> bool" where
  "wf_table t \<longleftrightarrow>
     distinct (map goal_id (tbl_rows t)) \<and>
     (\<forall>g \<in> set (tbl_rows t). goal_id g \<le> tbl_seq t) \<and>
     (\<forall>g \<in> set (tbl_rows t). is_done g = 0 \<or> is_done g = 1)"

text \<open>
  What an operation does to the table when its parameters can be bound: the statement
  alone.
\<close>

fun sql_op :: "store_op \<Rightarrow> goals_table \<Rightarrow> goals_table" where
  "sql_op (AddGoal uid txt now) t = snd (add_goal uid txt now t)"
| "sql_op (ListGoals uid) t = t"
| "sql_op (MarkDone uid gid) t = snd (sql_update uid gid t)"
| "sql_op (DeleteGoal uid gid) t = snd (sql_delete uid gid t)"

text \<open>
  An id is retired in a table when the AUTOINCREMENT counter has passed it and no row
  carries it: the id was assigned once and its row has been deleted.
\<close>

definition retired :: "int \<Rightarrow> goals_table \<Rightarrow> bool" where
  "retired gid t \<longleftrightarrow> gid \<le> tbl_seq t \<and> (\<forall>g \<in> set (tbl_rows t). goal_id g \<noteq> gid)"

subsection \<open>A concrete history\<close>

text \<open>
  The table after user 10 has added a goal and user 20 has added another one, starting
  from a fresh database. It is used to evaluate the store on concrete inputs.
\<close>

definition goal_A :: goal where
  "goal_A = \<lparr>goal_id = 1, user_id = 10, goal_text = [104, 105], is_done = 0, created_at = 1000\<rparr>"

definition goal_B :: goal where
  "goal_B = \<lparr>goal_id = 2, user_id = 20, goal_text = [121, 111], is_done = 0, created_at = 2000\<rparr>"

definition two_goals :: goals_table where
  "two_goals = \<lparr>tbl_rows = [goal_A, goal_B], tbl_seq = 2\<rparr>"

section \<open>Python strings\<close>

text \<open>
  String literals of the source that are plain ASCII are written as HOL strings and
  turned into code points by \<open>ascii\<close>; the others are given by their code points.
\<close>

definition ascii :: "string \<Rightarrow> pystr" where
  "ascii s = map of_char s"

text \<open>
  \<open>str.strip\<close>, \<open>str.isdigit\<close> and \<open>int\<close> classify characters by the Unicode database of
  the interpreter. For ASCII the classification is fixed and written out here; for the
  code points from 128 on it is a parameter, so that every statement below holds for every
  version of the database:
  \<^item> \<open>uc_space\<close>: the character is white space (\<open>str.isspace\<close>);
  \<^item> \<open>uc_digit\<close>: the character has the numeric type Digit or Decimal (\<open>str.isdigit\<close>);
  \<^item> \<open>uc_decimal\<close>: the decimal digit value of the character, if it has one (what
    \<open>int\<close> accepts as a digit).
\<close>

record ucd =
  uc_space :: "nat \<Rightarrow> bool"
  uc_digit :: "nat \<Rightarrow> bool"
  uc_decimal :: "nat \<Rightarrow> nat option"

definition isspace_cp :: "ucd \<Rightarrow> nat \<Rightarrow> bool" where
  "isspace_cp U c =
     (if c < 128 then (9 \<le> c \<and> c \<le> 13) \<or> (28 \<le> c \<and> c \<le> 32) else uc_space U c)"

definition isdigit_cp :: "ucd \<Rightarrow> nat \<Rightarrow> bool" where
  "isdigit_cp U c = (if c < 128 then 48 \<le> c \<and> c \<le> 57 else uc_digit U c)"

definition decimal_cp :: "ucd \<Rightarrow> nat \<Rightarrow> nat option" where
  "decimal_cp U c =
     (if c < 128 then (if 48 \<le> c \<and> c \<le> 57 then Some (c - 48) else None) else uc_decimal U c)"

text \<open>\<open>s.strip()\<close>: white space is dropped at both ends.\<close>

definition strip :: "ucd \<Rightarrow> pystr \<Rightarrow> pystr" where
  "strip U s = rev (dropWhile (isspace_cp U) (rev (dropWhile (isspace_cp U) s)))"

text \<open>\<open>s.isdigit()\<close>: at least one character, and every character is a digit.\<close>

definition isdigit :: "ucd \<Rightarrow> pystr \<Rightarrow> bool" where
  "isdigit U s \<longleftrightarrow> s \<noteq> [] \<and> list_all (isdigit_cp U) s"

text \<open>
  \<open>int(s)\<close> for a string without sign, white space and underscore, which is all that
  \<open>cmd_done\<close> and \<open>cmd_del\<close> pass to it after \<open>isdigit\<close>: the decimal number that the digit
  values spell, and \<open>ValueError\<close> if a character has no decimal digit value (a superscript
  digit is a digit for \<open>isdigit\<close> and has none).
\<close>

fun digits_value :: "ucd \<Rightarrow> pystr \<Rightarrow> nat \<Rightarrow> nat option" where
  "digits_value U [] n = Some n"
| "digits_value U (c # cs) n =
     (case decimal_cp U c of None \<Rightarrow> None | Some d \<Rightarrow> digits_value U cs (10 * n + d))"

definition py_int :: "ucd \<Rightarrow> pystr \<Rightarrow> exn + int" where
  "py_int U s =
     (if s = [] then Inl ValueError
      else case digits_value U s 0 of None \<Rightarrow> Inl ValueError | Some n \<Rightarrow> Inr (int n))"

text \<open>
  \<open>s.replace(old, new)\<close> for a non-empty \<open>old\<close>: the occurrences of \<open>old\<close> are replaced
  from left to right, without overlap.
\<close>

function replace :: "pystr \<Rightarrow> pystr \<Rightarrow> pystr \<Rightarrow> pystr" where
  "replace old new [] = []"
| "replace old new (c # cs) =
     (if old \<noteq> [] \<and> prefix old (c # cs)
      then new @ replace old new (drop (length old) (c # cs))
      else c # replace old new cs)"
  by pat_completeness auto
termination
  by (relation "measure (\<lambda>(old, new, s). length s)") auto

text \<open>\<open>command.args or ""\<close>: \<open>None\<close> and the empty string both give the empty string.\<close>

definition or_empty :: "pystr option \<Rightarrow> pystr" where
  "or_empty a = (case a of None \<Rightarrow> [] | Some s \<Rightarrow> s)"

section \<open>The completion client\<close>

text \<open>
  \<open>ask_openai\<close> calls \<open>client.chat.completions.create\<close> with four keyword arguments. A
  request is the record of them; the second handler for \<open>/ask\<close> at the end of the file
  passes no \<open>temperature\<close> and no \<open>max_tokens\<close>, hence the options. The literal \<open>0.3\<close> is
  the rational 3/10.
\<close>

record chat_message =
  msg_role :: pystr
  msg_content :: pystr

record completion_request =
  model :: pystr
  messages :: "chat_message list"
  temperature :: "rat option"
  max_tokens :: "nat option"

text \<open>
  The remote call either raises (network error, API error, timeout: subclasses of
  \<open>Exception\<close>) or returns a response, of which the code reads
  \<open>choices[0].message.content\<close>. A response is the list of the contents of its choices;
  a content can be \<open>None\<close>. The service is a function from requests to results: what it
  answers is not the program's to decide.
\<close>

datatype api_result = ApiException | ApiResponse "pystr option list"

type_synonym completion_api = "completion_request \<Rightarrow> api_result"

definition SYSTEM_PROMPT :: pystr where
  "SYSTEM_PROMPT = ascii
     ''You are GPT-5 Thinking, a helpful planning assistant for productivity, goals and daily focus. Answer concisely in Ukrainian unless asked otherwise.''"

definition APOLOGY :: pystr where
  "APOLOGY =
     [9888, 65039, 32, 1042, 1080, 1073, 1072, 1095, 44, 32, 1079, 1072, 1088, 1072,
      1079, 32, 1085, 1077, 32, 1074, 1076, 1072, 1108, 1090, 1100, 1089, 1103, 32,
      1086, 1090, 1088, 1080, 1084, 1072, 1090, 1080, 32, 1074, 1110, 1076, 1087, 1086,
      1074, 1110, 1076, 1100, 32, 1074, 1110, 1076, 32, 65, 73, 46]"

definition openai_request :: "pystr \<Rightarrow> completion_request" where
  "openai_request prompt =
     \<lparr>model = ascii ''gpt-4o-mini'',
      messages = [\<lparr>msg_role = ascii ''system'', msg_content = SYSTEM_PROMPT\<rparr>,
                  \<lparr>msg_role = ascii ''user'', msg_content = prompt\<rparr>],
      temperature = Some (3 / 10),
      max_tokens = Some 600\<rparr>"

text \<open>
  \<open>ask_openai\<close> returns the requests it has sent (one) and the answer. The body of the
  \<open>try\<close> raises when the call raises, when \<open>choices\<close> is empty (\<open>IndexError\<close>) and when the
  content is \<open>None\<close> (\<open>AttributeError\<close> on \<open>.strip()\<close>); \<open>except Exception\<close> logs and
  returns the apology in each of these cases.
\<close>

definition ask_openai :: "ucd \<Rightarrow> completion_api \<Rightarrow> pystr \<Rightarrow> completion_request list \<times> pystr" where
  "ask_openai U api prompt =
     ([openai_request prompt],
      (case api (openai_request prompt) of
         ApiException \<Rightarrow> APOLOGY
       | ApiResponse [] \<Rightarrow> APOLOGY
       | ApiResponse (None # _) \<Rightarrow> APOLOGY
       | ApiResponse (Some content # _) \<Rightarrow> strip U content))"

section \<open>The handlers\<close>

text \<open>
  An inbound message carries the id of its sender and a text (\<open>None\<close> for a message
  without text). A handler answers with \<open>message.answer\<close>; a reply is its text, its
  \<open>parse_mode\<close> and its \<open>reply_markup\<close>. The fixed texts of the source are Ukrainian; each
  is a constructor here, named after its place:

  \<^item> \<open>HELP\<close>: the text of \<open>start_handler\<close>;
  \<^item> \<open>ASK_USAGE\<close>, \<open>THINKING\<close>: the hint and the notice of \<open>cmd_ask\<close>;
  \<^item> \<open>PLAIN s\<close>: the string \<open>s\<close> itself (\<open>message.answer(answer)\<close>);
  \<^item> \<open>ADDGOAL_USAGE\<close>, \<open>GOAL_ADDED i\<close>: the hint and the confirmation (an f-string over the
    new id) of \<open>cmd_addgoal\<close>;
  \<^item> \<open>NO_GOALS\<close>, \<open>GOAL_LINES ls\<close>: the hint and the joined lines of \<open>cmd_goals\<close>; a line
    is built from the status icon (done or pending), the id and the text;
  \<^item> \<open>DONE_USAGE\<close>, \<open>DONE_OK\<close>, \<open>DEL_USAGE\<close>, \<open>DELETED\<close>: the hints and confirmations of
    \<open>cmd_done\<close> and \<open>cmd_del\<close>; \<open>NOT_FOUND\<close>: the text both use when no row matched;
  \<^item> \<open>ASK_HINT\<close>, \<open>CHALLENGE_STUB\<close>, \<open>PLAN_STUB\<close>, \<open>CHOOSE\<close>: the texts of \<open>handle_buttons\<close>;
  \<^item> \<open>AI_USAGE\<close>, \<open>AI_THINKING\<close>, \<open>AI_ANSWER c\<close>, \<open>AI_ERROR\<close>: the texts of \<open>ask_ai\<close>; the
    answer is an f-string over the content, which can be \<open>None\<close>.
\<close>

record message =
  from_user_id :: int
  msg_text :: "pystr option"

datatype reply_text =
    HELP
  | ASK_USAGE | THINKING | PLAIN pystr
  | ADDGOAL_USAGE | GOAL_ADDED int
  | NO_GOALS | GOAL_LINES "(bool \<times> int \<times> pystr) list"
  | DONE_USAGE | DONE_OK | NOT_FOUND
  | DEL_USAGE | DELETED
  | ASK_HINT | CHALLENGE_STUB | PLAN_STUB | CHOOSE
  | AI_USAGE | AI_THINKING | AI_ANSWER "pystr option" | AI_ERROR

datatype parse_mode = Markdown

definition BTN_ASK :: pystr where
  "BTN_ASK = [129504, 32, 1047, 1072, 1087, 1080, 1090, 1072, 1090, 1080, 32, 65, 73]"

definition BTN_GOALS :: pystr where
  "BTN_GOALS = [127919, 32, 1052, 1086, 1111, 32, 1094, 1110, 1083, 1110]"

definition BTN_CHALLENGE :: pystr where
  "BTN_CHALLENGE =
     [128640, 32, 1053, 1086, 1074, 1080, 1081, 32, 1095, 1077, 1083, 1077, 1085, 1076, 1078]"

definition BTN_PLAN :: pystr where
  "BTN_PLAN =
     [128197, 32, 1055, 1083, 1072, 1085, 32, 1085, 1072, 32, 1089, 1100, 1086, 1075, 1086,
      1076, 1085, 1110]"

record keyboard =
  keyboard_rows :: "pystr list list"
  resize_keyboard :: bool

definition main_menu :: keyboard where
  "main_menu =
     \<lparr>keyboard_rows = [BTN_ASK, BTN_GOALS] # [BTN_CHALLENGE, BTN_PLAN] # [],
      resize_keyboard = True\<rparr>"

record reply =
  reply_body :: reply_text
  reply_parse_mode :: "parse_mode option"
  reply_markup :: "keyboard option"

definition plain :: "reply_text \<Rightarrow> reply" where
  "plain x = \<lparr>reply_body = x, reply_parse_mode = None, reply_markup = None\<rparr>"

definition markdown :: "reply_text \<Rightarrow> reply" where
  "markdown x = \<lparr>reply_body = x, reply_parse_mode = Some Markdown, reply_markup = None\<rparr>"

definition with_menu :: "reply_text \<Rightarrow> reply" where
  "with_menu x = \<lparr>reply_body = x, reply_parse_mode = None, reply_markup = Some main_menu\<rparr>"

text \<open>
  What one run of a handler does: the replies it sends, in order, the requests it sends
  to the completion service, the table it leaves, and the exception that ends it, if one
  does. The environment of a run is the Unicode database, the completion service and the
  reading of the clock. What the chat transport does with a reply is not part of the
  model: \<open>message.answer\<close> is taken to return.
\<close>

record outcome =
  sent :: "reply list"
  requests :: "completion_request list"
  store :: goals_table
  raised :: "exn option"

record env =
  env_ucd :: ucd
  env_api :: completion_api
  env_utcnow :: datetime

definition answered :: "reply list \<Rightarrow> goals_table \<Rightarrow> outcome" where
  "answered rs t = \<lparr>sent = rs, requests = [], store = t, raised = None\<rparr>"

definition start_handler :: "message \<Rightarrow> goals_table \<Rightarrow> outcome" where
  "start_handler m t = answered [with_menu HELP] t"

definition cmd_ask :: "env \<Rightarrow> message \<Rightarrow> pystr option \<Rightarrow> goals_table \<Rightarrow> outcome" where
  "cmd_ask E m args t =
     (let question = strip (env_ucd E) (or_empty args)
      in if question = [] then answered [markdown ASK_USAGE] t
         else (let (reqs, answer) = ask_openai (env_ucd E) (env_api E) question
               in \<lparr>sent = [plain THINKING, plain (PLAIN answer)], requests = reqs, store = t,
                   raised = None\<rparr>))"

definition cmd_addgoal :: "env \<Rightarrow> message \<Rightarrow> pystr option \<Rightarrow> goals_table \<Rightarrow> outcome" where
  "cmd_addgoal E m args t =
     (let body = strip (env_ucd E) (or_empty args)
      in if body = [] then answered [markdown ADDGOAL_USAGE] t
         else (let (new_id, t') = add_goal (from_user_id m) body (env_utcnow E) t
               in answered [plain (GOAL_ADDED new_id)] t'))"

definition cmd_goals :: "message \<Rightarrow> goals_table \<Rightarrow> outcome" where
  "cmd_goals m t =
     (let rows = list_goals (from_user_id m) t
      in if rows = [] then answered [markdown NO_GOALS] t
         else answered [markdown (GOAL_LINES (map (\<lambda>(i, x, d). (d \<noteq> 0, i, x)) rows))] t)"

definition cmd_done :: "env \<Rightarrow> message \<Rightarrow> pystr option \<Rightarrow> goals_table \<Rightarrow> outcome" where
  "cmd_done E m args t =
     (case args of
        None \<Rightarrow> answered [markdown DONE_USAGE] t
      | Some a \<Rightarrow>
          if a = [] \<or> \<not> isdigit (env_ucd E) a then answered [markdown DONE_USAGE] t
          else (case py_int (env_ucd E) a of
                  Inl e \<Rightarrow> \<lparr>sent = [], requests = [], store = t, raised = Some e\<rparr>
                | Inr n \<Rightarrow>
                    (case mark_done (from_user_id m) n t of
                       Inl e \<Rightarrow> \<lparr>sent = [], requests = [], store = t, raised = Some e\<rparr>
                     | Inr (changed, t') \<Rightarrow>
                         answered [plain (if changed \<noteq> 0 then DONE_OK else NOT_FOUND)] t')))"

definition cmd_del :: "env \<Rightarrow> message \<Rightarrow> pystr option \<Rightarrow> goals_table \<Rightarrow> outcome" where
  "cmd_del E m args t =
     (case args of
        None \<Rightarrow> answered [markdown DEL_USAGE] t
      | Some a \<Rightarrow>
          if a = [] \<or> \<not> isdigit (env_ucd E) a then answered [markdown DEL_USAGE] t
          else (case py_int (env_ucd E) a of
                  Inl e \<Rightarrow> \<lparr>sent = [], requests = [], store = t, raised = Some e\<rparr>
                | Inr n \<Rightarrow>
                    (case delete_goal (from_user_id m) n t of
                       Inl e \<Rightarrow> \<lparr>sent = [], requests = [], store = t, raised = Some e\<rparr>
                     | Inr (deleted, t') \<Rightarrow>
                         answered [plain (if deleted \<noteq> 0 then DELETED else NOT_FOUND)] t')))"

definition handle_buttons :: "message \<Rightarrow> goals_table \<Rightarrow> outcome" where
  "handle_buttons m t =
     (if msg_text m = Some BTN_ASK then answered [markdown ASK_HINT] t
      else if msg_text m = Some BTN_GOALS then cmd_goals m t
      else if msg_text m = Some BTN_CHALLENGE then answered [plain CHALLENGE_STUB] t
      else if msg_text m = Some BTN_PLAN then answered [plain PLAN_STUB] t
      else answered [with_menu CHOOSE] t)"

subsection \<open>The second handler for /ask\<close>

text \<open>
  The file ends, after the call of \<open>asyncio.run(main())\<close>, with a second handler
  registered for the command \<open>ask\<close>. It cuts \<open>/ask\<close> out of the message text itself, asks
  another model with another system prompt and no sampling settings, and answers inside
  its own \<open>try\<close>. The block also binds \<open>client\<close> again, to a client built from the same
  key as the first one: the completion service of the environment stands for both.
\<close>

definition AI_SYSTEM_PROMPT :: pystr where
  "AI_SYSTEM_PROMPT =
     [1058, 1080, 32, 8212, 32, 1082, 1086, 1088, 1080, 1089, 1085, 1080, 1081, 32,
      1072, 1089, 1080, 1089, 1090, 1077, 1085, 1090, 32, 85, 110, 105, 116, 121, 80,
      108, 97, 110, 44, 32, 1103, 1082, 1080, 1081, 32, 1076, 1086, 1087, 1086, 1084,
      1072, 1075, 1072, 1108, 32, 1083, 1102, 1076, 1103, 1084, 32, 1079, 32, 1094,
      1110, 1083, 1103, 1084, 1080, 44, 32, 1087, 1083, 1072, 1085, 1072, 1084, 1080,
      32, 1110, 32, 1084, 1086, 1090, 1080, 1074, 1072, 1094, 1110, 1108, 1102, 46]"

definition ask_ai_request :: "pystr \<Rightarrow> completion_request" where
  "ask_ai_request query =
     \<lparr>model = ascii ''gpt-3.5-turbo'',
      messages = [\<lparr>msg_role = ascii ''system'', msg_content = AI_SYSTEM_PROMPT\<rparr>,
                  \<lparr>msg_role = ascii ''user'', msg_content = query\<rparr>],
      temperature = None,
      max_tokens = None\<rparr>"

definition ask_ai :: "env \<Rightarrow> message \<Rightarrow> goals_table \<Rightarrow> outcome" where
  "ask_ai E m t =
     (case msg_text m of
        None \<Rightarrow> \<lparr>sent = [], requests = [], store = t, raised = Some AttributeError\<rparr>
      | Some s \<Rightarrow>
          (let query = strip (env_ucd E) (replace (ascii ''/ask'') [] s)
           in if query = [] then answered [plain AI_USAGE] t
              else \<lparr>sent = [plain AI_THINKING,
                            (case env_api E (ask_ai_request query) of
                               ApiException \<Rightarrow> plain AI_ERROR
                             | ApiResponse [] \<Rightarrow> plain AI_ERROR
                             | ApiResponse (content # _) \<Rightarrow> plain (AI_ANSWER content))],
                    requests = [ask_ai_request query], store = t, raised = None\<rparr>))"

section \<open>The dispatcher\<close>

text \<open>
  Each \<open>@dp.message(...)\<close> appends a handler with its filter to the dispatcher's list.
  For an inbound message the dispatcher goes through the list in the order of
  registration and calls the first handler whose filter accepts the message; the handlers
  after it are not looked at. A handler registered without a filter accepts every message.
  The filter \<open>Command(name)\<close> belongs to the library: it is a parameter here, a function
  that for a command name and a message says whether the message is that command and, if
  so, what \<open>command.args\<close> is.
\<close>

datatype msg_filter = Command pystr | NoFilter

datatype callback =
    Start_handler | Cmd_ask | Cmd_addgoal | Cmd_goals | Cmd_done | Cmd_del
  | Handle_buttons | Ask_ai

type_synonym command_filter = "pystr \<Rightarrow> message \<Rightarrow> pystr option option"

definition check :: "command_filter \<Rightarrow> msg_filter \<Rightarrow> message \<Rightarrow> pystr option option" where
  "check F flt m = (case flt of Command name \<Rightarrow> F name m | NoFilter \<Rightarrow> Some None)"

fun trigger ::
  "command_filter \<Rightarrow> (msg_filter \<times> callback) list \<Rightarrow> message \<Rightarrow> (callback \<times> pystr option) option"
where
  "trigger F [] m = None"
| "trigger F ((flt, cb) # hs) m =
     (case check F flt m of Some args \<Rightarrow> Some (cb, args) | None \<Rightarrow> trigger F hs m)"

definition call :: "env \<Rightarrow> callback \<Rightarrow> message \<Rightarrow> pystr option \<Rightarrow> goals_table \<Rightarrow> outcome" where
  "call E cb m args t =
     (case cb of
        Start_handler \<Rightarrow> start_handler m t
      | Cmd_ask \<Rightarrow> cmd_ask E m args t
      | Cmd_addgoal \<Rightarrow> cmd_addgoal E m args t
      | Cmd_goals \<Rightarrow> cmd_goals m t
      | Cmd_done \<Rightarrow> cmd_done E m args t
      | Cmd_del \<Rightarrow> cmd_del E m args t
      | Handle_buttons \<Rightarrow> handle_buttons m t
      | Ask_ai \<Rightarrow> ask_ai E m t)"

text \<open>
  The handlers in the order of the file: those above \<open>main\<close>, and the whole list with the
  one registered at the end of the file.
\<close>

definition handlers_above_main :: "(msg_filter \<times> callback) list" where
  "handlers_above_main =
     [(Command (ascii ''start''), Start_handler),
      (Command (ascii ''ask''), Cmd_ask),
      (Command (ascii ''addgoal''), Cmd_addgoal),
      (Command (ascii ''goals''), Cmd_goals),
      (Command (ascii ''done''), Cmd_done),
      (Command (ascii ''del''), Cmd_del),
      (NoFilter, Handle_buttons)]"

definition handlers_of_file :: "(msg_filter \<times> callback) list" where
  "handlers_of_file = handlers_above_main @ [(Command (ascii ''ask''), Ask_ai)]"

definition feed_update ::
  "command_filter \<Rightarrow> env \<Rightarrow> (msg_filter \<times> callback) list \<Rightarrow> message \<Rightarrow> goals_table \<Rightarrow> outcome"
where
  "feed_update F E hs m t =
     (case trigger F hs m of
        None \<Rightarrow> answered [] t
      | Some (cb, args) \<Rightarrow> call E cb m args t)"

subsection \<open>A concrete environment\<close>

text \<open>
  For evaluation: a fragment of the Unicode database (the no-break space is white
  space; superscript two is a digit without a decimal value; the Arabic-Indic digits
  are decimal digits), a completion service that is down and one that answers, and a
  command filter in the manner of the library's: the text up to the first white space
  must be \<open>/\<close> followed by the command name, and what follows the white space is
  \<open>command.args\<close>.
\<close>

definition ucd_fragment :: ucd where
  "ucd_fragment =
     \<lparr>uc_space = (\<lambda>c. c = 160),
      uc_digit = (\<lambda>c. c = 178 \<or> (1632 \<le> c \<and> c \<le> 1641)),
      uc_decimal = (\<lambda>c. if 1632 \<le> c \<and> c \<le> 1641 then Some (c - 1632) else None)\<rparr>"

definition api_down :: completion_api where
  "api_down req = ApiException"

definition api_echo :: completion_api where
  "api_echo req = ApiResponse [Some (msg_content (last (messages req)))]"

definition env_down :: env where
  "env_down = \<lparr>env_ucd = ucd_fragment, env_api = api_down, env_utcnow = 3000\<rparr>"

definition env_echo :: env where
  "env_echo = \<lparr>env_ucd = ucd_fragment, env_api = api_echo, env_utcnow = 3000\<rparr>"

definition slash_filter :: command_filter where
  "slash_filter name m =
     (case msg_text m of
        None \<Rightarrow> None
      | Some s \<Rightarrow>
          (let word = takeWhile (\<lambda>c. \<not> isspace_cp ucd_fragment c) s;
               rest = dropWhile (isspace_cp ucd_fragment)
                        (dropWhile (\<lambda>c. \<not> isspace_cp ucd_fragment c) s)
           in if word = 47 # name then Some (if rest = [] then None else Some rest)
              else None))"

text \<open>A user without goals so far, and the text of the goal they add.\<close>

definition milk :: pystr where
  "milk = ascii ''Buy milk''"

definition user_30 :: "pystr \<Rightarrow> message" where
  "user_30 s = \<lparr>from_user_id = 30, msg_text = Some s\<rparr>"

section \<open>Properties of the goal store\<close>

lemma foldr_max_ge: "x \<in> set xs \<Longrightarrow> x \<le> foldr max xs (b::int)"
  by (induction xs) auto

lemma next_rowid_gt_seq: "tbl_seq t < next_rowid t"
  by (simp add: next_rowid_def)

lemma next_rowid_gt_rows: "g \<in> set (tbl_rows t) \<Longrightarrow> goal_id g < next_rowid t"
proof -
  assume "g \<in> set (tbl_rows t)"
  then have "goal_id g \<in> set (map goal_id (tbl_rows t))" by simp
  then have "goal_id g \<le> foldr max (map goal_id (tbl_rows t)) 0" by (rule foldr_max_ge)
  then show ?thesis by (simp add: next_rowid_def)
qed

lemma wf_empty_table: "wf_table empty_table"
  by (simp add: wf_table_def empty_table_def)

lemma wf_init_db_None: "wf_table (init_db None)"
  by (simp add: init_db_def wf_empty_table)

lemma wf_add_goal: "wf_table t \<Longrightarrow> wf_table (snd (add_goal uid txt now t))"
  using next_rowid_gt_rows [of _ t]
  by (fastforce simp: wf_table_def add_goal_def Let_def)

lemma wf_mark_done: "wf_table t \<Longrightarrow> wf_table (snd (sql_update uid gid t))"
proof -
  assume wf: "wf_table t"
  have ids: "goal_id \<circ> (\<lambda>g. if matches uid gid g then g\<lparr>is_done := 1\<rparr> else g) = goal_id"
    by (auto simp: fun_eq_iff)
  from wf show ?thesis
    by (auto simp: wf_table_def sql_update_def ids)
qed

lemma wf_delete_goal: "wf_table t \<Longrightarrow> wf_table (snd (sql_delete uid gid t))"
  by (auto simp: wf_table_def sql_delete_def distinct_map_filter)

lemma wf_sql_op: "wf_table t \<Longrightarrow> wf_table (sql_op c t)"
  by (cases c) (simp_all add: wf_add_goal wf_mark_done wf_delete_goal)

lemma apply_op_cases: "apply_op c t = sql_op c t \<or> apply_op c t = t"
  by (cases c) (simp_all add: mark_done_def delete_goal_def)

lemma wf_apply_op: "wf_table t \<Longrightarrow> wf_table (apply_op c t)"
  using apply_op_cases [of c t] wf_sql_op [of t c] by auto

lemma wf_run: "wf_table t \<Longrightarrow> wf_table (run cs t)"
  by (induction cs arbitrary: t) (simp_all add: wf_apply_op)

text \<open>Every table that the bot can build from a fresh database satisfies the invariant.\<close>

lemma wf_reachable: "wf_table (run cs (init_db None))"
  using wf_init_db_None by (rule wf_run)

lemma filter_key_unique:
  "distinct (map f xs) \<Longrightarrow> g \<in> set xs \<Longrightarrow>
   filter (\<lambda>x. f x = f g \<and> P x) xs = (if P g then [g] else [])"
proof (induction xs)
  case Nil
  then show ?case by simp
next
  case (Cons a xs)
  show ?case
  proof (cases "a = g")
    case True
    with Cons.prems have "\<forall>x \<in> set xs. f x \<noteq> f g" by (auto simp: image_iff)
    then have "filter (\<lambda>x. f x = f g \<and> P x) xs = []" by (simp add: filter_empty_conv)
    with True show ?thesis by simp
  next
    case False
    with Cons.prems have "g \<in> set xs" "f a \<noteq> f g" "distinct (map f xs)" by auto
    with Cons.IH show ?thesis by simp
  qed
qed

lemma matches_rows:
  "wf_table t \<Longrightarrow> g \<in> set (tbl_rows t) \<Longrightarrow>
   filter (matches uid (goal_id g)) (tbl_rows t) = (if user_id g = uid then [g] else [])"
  using filter_key_unique [of goal_id "tbl_rows t" g "\<lambda>x. user_id x = uid"]
  by (simp add: wf_table_def matches_def [abs_def])

lemma no_match_rows:
  "\<forall>g \<in> set (tbl_rows t). goal_id g \<noteq> gid \<Longrightarrow> filter (matches uid gid) (tbl_rows t) = []"
  by (simp add: filter_empty_conv matches_def)

lemma rowcount_le_1:
  "wf_table t \<Longrightarrow> length (filter (matches uid gid) (tbl_rows t)) \<le> 1"
proof (cases "\<exists>g \<in> set (tbl_rows t). goal_id g = gid")
  case True
  assume wf: "wf_table t"
  from True obtain g where g: "g \<in> set (tbl_rows t)" "goal_id g = gid" by blast
  from matches_rows [OF wf g(1), of uid] g(2) show ?thesis by (simp split: if_splits)
next
  case False
  then show ?thesis by (simp add: no_match_rows)
qed

lemma rowcount_eq_1_iff:
  "wf_table t \<Longrightarrow>
   length (filter (matches uid gid) (tbl_rows t)) = 1 \<longleftrightarrow>
   (\<exists>g \<in> set (tbl_rows t). goal_id g = gid \<and> user_id g = uid)"
proof
  assume "wf_table t" "length (filter (matches uid gid) (tbl_rows t)) = 1"
  then have "filter (matches uid gid) (tbl_rows t) \<noteq> []" by auto
  then show "\<exists>g \<in> set (tbl_rows t). goal_id g = gid \<and> user_id g = uid"
    by (auto simp: filter_empty_conv matches_def)
next
  assume wf: "wf_table t" and "\<exists>g \<in> set (tbl_rows t). goal_id g = gid \<and> user_id g = uid"
  then obtain g where g: "g \<in> set (tbl_rows t)" "goal_id g = gid" "user_id g = uid" by blast
  from matches_rows [OF wf g(1), of uid] g(2,3)
  show "length (filter (matches uid gid) (tbl_rows t)) = 1" by simp
qed

lemma tbl_seq_sql_op: "tbl_seq t \<le> tbl_seq (sql_op c t)"
  using next_rowid_gt_seq [of t]
  by (cases c) (simp_all add: add_goal_def Let_def sql_update_def sql_delete_def)

lemma retired_sql_op: "retired gid t \<Longrightarrow> retired gid (sql_op c t)"
  using next_rowid_gt_seq [of t]
  by (cases c) (auto simp: retired_def add_goal_def Let_def sql_update_def sql_delete_def)

lemma tbl_seq_apply_op: "tbl_seq t \<le> tbl_seq (apply_op c t)"
  using apply_op_cases [of c t] tbl_seq_sql_op [of t c] by auto

lemma retired_apply_op: "retired gid t \<Longrightarrow> retired gid (apply_op c t)"
  using apply_op_cases [of c t] retired_sql_op [of gid t c] by auto

lemma retired_run: "retired gid t \<Longrightarrow> retired gid (run cs t)"
  by (induction cs arbitrary: t) (simp_all add: retired_apply_op)

lemma retired_rowcount:
  "retired gid t \<Longrightarrow> filter (matches uid gid) (tbl_rows t) = []"
  by (simp add: retired_def no_match_rows)

text \<open>One operation keeps the immutable columns of every row it leaves in the table.\<close>

lemma frame_sql_op:
  assumes "wf_table t" "g' \<in> set (tbl_rows (sql_op c t))" "goal_id g' \<le> tbl_seq t"
  shows "\<exists>g \<in> set (tbl_rows t). goal_id g = goal_id g' \<and> user_id g = user_id g' \<and>
           goal_text g = goal_text g' \<and> created_at g = created_at g' \<and>
           (is_done g' = is_done g \<or> (is_done g = 0 \<and> is_done g' = 1))"
proof (cases c)
  case (AddGoal uid body now)
  with assms next_rowid_gt_seq [of t] show ?thesis
    by (auto simp: add_goal_def Let_def)
next
  case (ListGoals uid)
  with assms show ?thesis by auto
next
  case (MarkDone uid gid)
  with assms(2) obtain g where g: "g \<in> set (tbl_rows t)"
      "g' = (if matches uid gid g then g\<lparr>is_done := 1\<rparr> else g)"
    by (auto simp: sql_update_def)
  from assms(1) g(1) have "is_done g = 0 \<or> is_done g = 1" by (simp add: wf_table_def)
  with g show ?thesis by (intro bexI [of _ g]) (auto split: if_splits)
next
  case (DeleteGoal uid gid)
  with assms show ?thesis by (auto simp: sql_delete_def)
qed

lemma frame_apply_op:
  assumes "wf_table t" "g' \<in> set (tbl_rows (apply_op c t))" "goal_id g' \<le> tbl_seq t"
  shows "\<exists>g \<in> set (tbl_rows t). goal_id g = goal_id g' \<and> user_id g = user_id g' \<and>
           goal_text g = goal_text g' \<and> created_at g = created_at g' \<and>
           (is_done g' = is_done g \<or> (is_done g = 0 \<and> is_done g' = 1))"
  using apply_op_cases [of c t]
proof
  assume "apply_op c t = sql_op c t"
  with assms frame_sql_op [of t g' c] show ?thesis by simp
next
  assume "apply_op c t = t"
  with assms(2) show ?thesis by (intro bexI [of _ g']) simp_all
qed

lemma frame_run:
  assumes "wf_table t" "g' \<in> set (tbl_rows (run cs t))" "goal_id g' \<le> tbl_seq t"
  shows "\<exists>g \<in> set (tbl_rows t). goal_id g = goal_id g' \<and> user_id g = user_id g' \<and>
           goal_text g = goal_text g' \<and> created_at g = created_at g' \<and>
           (is_done g' = is_done g \<or> (is_done g = 0 \<and> is_done g' = 1))"
  using assms
proof (induction cs arbitrary: t)
  case Nil
  then show ?case by auto
next
  case (Cons c cs)
  have wf': "wf_table (apply_op c t)" using Cons.prems(1) by (rule wf_apply_op)
  have le: "goal_id g' \<le> tbl_seq (apply_op c t)"
    using Cons.prems(3) tbl_seq_apply_op [of t c] by linarith
  from Cons.IH [OF wf' _ le] Cons.prems(2)
  obtain g1 where g1: "g1 \<in> set (tbl_rows (apply_op c t))" "goal_id g1 = goal_id g'"
      "user_id g1 = user_id g'" "goal_text g1 = goal_text g'" "created_at g1 = created_at g'"
      "is_done g' = is_done g1 \<or> (is_done g1 = 0 \<and> is_done g' = 1)"
    by auto
  from g1(2) Cons.prems(3) have "goal_id g1 \<le> tbl_seq t" by simp
  from frame_apply_op [OF Cons.prems(1) g1(1) this]
  obtain g where g: "g \<in> set (tbl_rows t)" "goal_id g = goal_id g1"
      "user_id g = user_id g1" "goal_text g = goal_text g1" "created_at g = created_at g1"
      "is_done g1 = is_done g \<or> (is_done g = 0 \<and> is_done g1 = 1)"
    by auto
  from g g1 show ?case by (intro bexI [of _ g]) auto
qed

lemma row_by_id_unique:
  "wf_table t \<Longrightarrow> g \<in> set (tbl_rows t) \<Longrightarrow> h \<in> set (tbl_rows t) \<Longrightarrow>
   goal_id g = goal_id h \<Longrightarrow> g = h"
  by (auto simp: wf_table_def distinct_map inj_on_def)

lemma isolation_state:
  assumes "wf_table t" "g \<in> set (tbl_rows t)" "user_id g \<noteq> b"
  shows "(\<forall>r \<in> set (list_goals b t). fst r \<noteq> goal_id g) \<and>
         sql_update b (goal_id g) t = (0, t) \<and> sql_delete b (goal_id g) t = (0, t)"
proof -
  have none: "filter (matches b (goal_id g)) (tbl_rows t) = []"
    using matches_rows [OF assms(1,2), of b] assms(3) by simp
  then have nm: "\<forall>x \<in> set (tbl_rows t). \<not> matches b (goal_id g) x"
    by (simp add: filter_empty_conv)
  have "\<forall>r \<in> set (list_goals b t). fst r \<noteq> goal_id g"
    using nm by (auto simp: list_goals_def matches_def)
  moreover have "map (\<lambda>x. if matches b (goal_id g) x then x\<lparr>is_done := 1\<rparr> else x) (tbl_rows t)
                 = tbl_rows t"
    using nm by (simp add: map_idI)
  then have "sql_update b (goal_id g) t = (0, t)"
    by (simp add: sql_update_def none)
  moreover have "filter (\<lambda>x. \<not> matches b (goal_id g) x) (tbl_rows t) = tbl_rows t"
    using nm by (simp add: filter_id_conv)
  then have "sql_delete b (goal_id g) t = (0, t)"
    by (simp add: sql_delete_def none)
  ultimately show ?thesis by simp
qed

lemma isolation_retired:
  assumes "retired gid t"
  shows "(\<forall>r \<in> set (list_goals b t). fst r \<noteq> gid) \<and>
         sql_update b gid t = (0, t) \<and> sql_delete b gid t = (0, t)"
proof -
  have nm: "\<forall>x \<in> set (tbl_rows t). \<not> matches b gid x"
    using assms by (simp add: retired_def matches_def)
  have none: "filter (matches b gid) (tbl_rows t) = []"
    using nm by (simp add: filter_empty_conv)
  have "\<forall>r \<in> set (list_goals b t). fst r \<noteq> gid"
    using assms by (auto simp: list_goals_def retired_def)
  moreover have "map (\<lambda>x. if matches b gid x then x\<lparr>is_done := 1\<rparr> else x) (tbl_rows t)
                 = tbl_rows t"
    using nm by (simp add: map_idI)
  then have "sql_update b gid t = (0, t)"
    by (simp add: sql_update_def none)
  moreover have "filter (\<lambda>x. \<not> matches b gid x) (tbl_rows t) = tbl_rows t"
    using nm by (simp add: filter_id_conv)
  then have "sql_delete b gid t = (0, t)"
    by (simp add: sql_delete_def none)
  ultimately show ?thesis by simp
qed

lemma tbl_seq_run: "tbl_seq t \<le> tbl_seq (run cs t)"
proof (induction cs arbitrary: t)
  case Nil
  show ?case by simp
next
  case (Cons c cs)
  have "tbl_seq t \<le> tbl_seq (apply_op c t)" by (rule tbl_seq_apply_op)
  also have "\<dots> \<le> tbl_seq (run cs (apply_op c t))" by (rule Cons.IH)
  finally show ?case by simp
qed

lemma add_goal_row:
  "add_goal a body now t = (i, t0) \<Longrightarrow>
   i = next_rowid t \<and> tbl_seq t0 = i \<and>
   tbl_rows t0 = tbl_rows t @ [\<lparr>goal_id = i, user_id = a, goal_text = body, is_done = 0,
                                created_at = now\<rparr>]"
  by (auto simp: add_goal_def Let_def)

lemma sql_isolation:
  assumes "wf_table t" and "a \<noteq> b" and "add_goal a body now t = (i, t0)"
  shows "(\<forall>r \<in> set (list_goals b (run cs t0)). fst r \<noteq> i) \<and>
         sql_update b i (run cs t0) = (0, run cs t0) \<and>
         sql_delete b i (run cs t0) = (0, run cs t0)"
proof -
  let ?t' = "run cs t0"
  from assms(3) have t0: "t0 = snd (add_goal a body now t)" by simp
  have wf0: "wf_table t0" unfolding t0 using assms(1) by (rule wf_add_goal)
  then have wf': "wf_table ?t'" by (rule wf_run)
  note row = add_goal_row [OF assms(3)]
  show ?thesis
  proof (cases "\<exists>g' \<in> set (tbl_rows ?t'). goal_id g' = i")
    case True
    then obtain g' where g': "g' \<in> set (tbl_rows ?t')" "goal_id g' = i" by blast
    from row g'(2) have "goal_id g' \<le> tbl_seq t0" by simp
    from frame_run [OF wf0 g'(1) this]
    obtain g where g: "g \<in> set (tbl_rows t0)" "goal_id g = goal_id g'" "user_id g = user_id g'"
      by auto
    have "goal_id g < next_rowid t" if "g \<in> set (tbl_rows t)"
      using that by (rule next_rowid_gt_rows)
    with g(1,2) g'(2) row have "user_id g = a" by auto
    with g(3) assms(2) have "user_id g' \<noteq> b" by simp
    from isolation_state [OF wf' g'(1) this] g'(2) show ?thesis by simp
  next
    case False
    from row have "i \<le> tbl_seq ?t'"
      using tbl_seq_run [of t0 cs] by simp
    with False have "retired i ?t'" by (simp add: retired_def)
    then show ?thesis by (rule isolation_retired)
  qed
qed

text \<open>
  C1 (ownership isolation). Let user \<open>a\<close> create a goal, which gets the id \<open>i\<close>, and let any
  sequence \<open>cs\<close> of store operations follow. For every other user \<open>b\<close>, \<open>list_goals b\<close>
  returns no row with the id \<open>i\<close>, and \<open>mark_done b i\<close> and \<open>delete_goal b i\<close> return 0
  and leave the table as it is: every statement selects on \<open>user_id\<close> as well as on the id.
  (The calls return whenever their parameters can be bound, as the id SQLite has assigned
  and the id of a Telegram user can.)
\<close>

theorem ownership_isolation:
  assumes "wf_table t" and "a \<noteq> b" and "add_goal a body now t = (i, t0)"
  shows "(\<forall>r \<in> set (list_goals b (run cs t0)). fst r \<noteq> i) \<and>
         mark_done b i (run cs t0)
           = (if sqlite_int i \<and> sqlite_int b then Inr (0, run cs t0) else Inl OverflowError) \<and>
         delete_goal b i (run cs t0)
           = (if sqlite_int i \<and> sqlite_int b then Inr (0, run cs t0) else Inl OverflowError)"
  using sql_isolation [OF assms, of cs] by (simp add: mark_done_def delete_goal_def)

lemma changed_sql_op:
  assumes "wf_table t" "g \<in> set (tbl_rows t)" "g' \<in> set (tbl_rows (sql_op c t))"
    "goal_id g' = goal_id g" "is_done g' \<noteq> is_done g"
  shows "c = MarkDone (user_id g) (goal_id g)"
proof (cases c)
  case (AddGoal uid body now)
  from assms(2) have "goal_id g < next_rowid t" by (rule next_rowid_gt_rows)
  with assms AddGoal row_by_id_unique [OF assms(1,2), of g'] show ?thesis
    by (auto simp: add_goal_def Let_def)
next
  case (ListGoals uid)
  with assms row_by_id_unique [OF assms(1,2), of g'] show ?thesis by auto
next
  case (MarkDone uid gid)
  with assms(3) obtain h where h: "h \<in> set (tbl_rows t)"
      "g' = (if matches uid gid h then h\<lparr>is_done := 1\<rparr> else h)"
    by (auto simp: sql_update_def)
  with assms(4) have "goal_id h = goal_id g" by (auto split: if_splits)
  with row_by_id_unique [OF assms(1,2) h(1)] have "h = g" by simp
  with h(2) assms(5) have "matches uid gid g" by (auto split: if_splits)
  with MarkDone show ?thesis by (simp add: matches_def)
next
  case (DeleteGoal uid gid)
  with assms row_by_id_unique [OF assms(1,2), of g'] show ?thesis
    by (auto simp: sql_delete_def)
qed

lemma changed_apply_op:
  assumes "wf_table t" "g \<in> set (tbl_rows t)" "g' \<in> set (tbl_rows (apply_op c t))"
    "goal_id g' = goal_id g" "is_done g' \<noteq> is_done g"
  shows "c = MarkDone (user_id g) (goal_id g)"
  using apply_op_cases [of c t]
proof
  assume "apply_op c t = sql_op c t"
  with assms changed_sql_op [of t g g' c] show ?thesis by simp
next
  assume "apply_op c t = t"
  with assms(3) have "g' \<in> set (tbl_rows t)" by simp
  from row_by_id_unique [OF assms(1,2) this] assms(4,5) show ?thesis by simp
qed

lemma changed_run:
  assumes "wf_table t" "g \<in> set (tbl_rows t)" "g' \<in> set (tbl_rows (run cs t))"
    "goal_id g' = goal_id g" "is_done g' \<noteq> is_done g"
  shows "MarkDone (user_id g) (goal_id g) \<in> set cs"
  using assms
proof (induction cs arbitrary: t g)
  case Nil
  with row_by_id_unique [of t g g'] show ?case by auto
next
  case (Cons c cs)
  have wf': "wf_table (apply_op c t)" using Cons.prems(1) by (rule wf_apply_op)
  from Cons.prems(1,2) have "goal_id g \<le> tbl_seq t" by (simp add: wf_table_def)
  with Cons.prems(4) tbl_seq_apply_op [of t c] have le: "goal_id g' \<le> tbl_seq (apply_op c t)"
    by simp
  from frame_run [OF wf' _ le] Cons.prems(3)
  obtain g1 where g1: "g1 \<in> set (tbl_rows (apply_op c t))" "goal_id g1 = goal_id g'"
    by auto
  from g1(2) Cons.prems(1,2,4) have le1: "goal_id g1 \<le> tbl_seq t" by (simp add: wf_table_def)
  from frame_apply_op [OF Cons.prems(1) g1(1) le1]
  obtain g0 where g0: "g0 \<in> set (tbl_rows t)" "goal_id g0 = goal_id g1" "user_id g0 = user_id g1"
    by auto
  with row_by_id_unique [OF Cons.prems(1,2) g0(1)] g1(2) Cons.prems(4) have eq: "g0 = g" by simp
  show ?case
  proof (cases "is_done g1 = is_done g")
    case True
    with Cons.prems(5) have "is_done g' \<noteq> is_done g1" by simp
    from Cons.IH [OF wf' g1(1) _ _ this] Cons.prems(3) g1(2)
    have "MarkDone (user_id g1) (goal_id g1) \<in> set cs" by simp
    with g0 eq show ?thesis by simp
  next
    case False
    from changed_apply_op [OF Cons.prems(1,2) g1(1) _ False] g1(2) Cons.prems(4)
    show ?thesis by simp
  qed
qed

text \<open>
  C2 (immutability frame). A row \<open>g\<close> of the table and the row \<open>g'\<close> with the same id
  after any sequence \<open>cs\<close> of store operations have the same \<open>user_id\<close>, text and
  \<open>created_at\<close>. The flag \<open>is_done\<close> is either unchanged or has gone from 0 to 1, and it
  has changed only if \<open>cs\<close> contains \<open>sql_update\<close> by the owner on that id.
\<close>

theorem immutability_frame:
  assumes "wf_table t" and "g \<in> set (tbl_rows t)"
    and "g' \<in> set (tbl_rows (run cs t))" and "goal_id g' = goal_id g"
  shows "user_id g' = user_id g \<and> goal_text g' = goal_text g \<and> created_at g' = created_at g \<and>
         (is_done g' = is_done g \<or> (is_done g = 0 \<and> is_done g' = 1)) \<and>
         (is_done g' \<noteq> is_done g \<longrightarrow> MarkDone (user_id g) (goal_id g) \<in> set cs)"
proof -
  from assms(1,2,4) have "goal_id g' \<le> tbl_seq t" by (simp add: wf_table_def)
  from frame_run [OF assms(1,3) this]
  obtain g0 where g0: "g0 \<in> set (tbl_rows t)" "goal_id g0 = goal_id g'"
      "user_id g0 = user_id g'" "goal_text g0 = goal_text g'" "created_at g0 = created_at g'"
      "is_done g' = is_done g0 \<or> (is_done g0 = 0 \<and> is_done g' = 1)"
    by auto
  from row_by_id_unique [OF assms(1,2) g0(1)] g0(2) assms(4) have "g0 = g" by simp
  with g0 changed_run [OF assms] show ?thesis by auto
qed

lemma sql_update_twice:
  assumes "wf_table t" and "g \<in> set (tbl_rows t)" and "goal_id g = gid" and "user_id g = uid"
  shows "fst (sql_update uid gid t) = 1 \<and>
         fst (sql_update uid gid (snd (sql_update uid gid t))) = 1 \<and>
         g\<lparr>is_done := 1\<rparr> \<in> set (tbl_rows (snd (sql_update uid gid t))) \<and>
         g\<lparr>is_done := 1\<rparr> \<in> set (tbl_rows (snd (sql_update uid gid (snd (sql_update uid gid t))))) \<and>
         snd (sql_update uid gid (snd (sql_update uid gid t))) = snd (sql_update uid gid t)"
proof -
  let ?t1 = "snd (sql_update uid gid t)"
  let ?g1 = "g\<lparr>is_done := 1\<rparr>"
  have m: "matches uid gid g" using assms(3,4) by (simp add: matches_def)
  have first: "fst (sql_update uid gid t) = 1"
    using matches_rows [OF assms(1,2), of uid] assms(3,4) by (simp add: sql_update_def)
  have wf1: "wf_table ?t1" using assms(1) by (rule wf_mark_done)
  have in1: "?g1 \<in> set (tbl_rows ?t1)"
    using assms(2) m by (force simp: sql_update_def)
  have "goal_id ?g1 = gid" "user_id ?g1 = uid" using assms(3,4) by simp_all
  with matches_rows [OF wf1 in1, of uid] have second: "fst (sql_update uid gid ?t1) = 1"
    by (simp add: sql_update_def)
  have idem: "snd (sql_update uid gid ?t1) = ?t1"
    by (simp add: sql_update_def comp_def matches_def cong: if_cong)
  from first second in1 idem show ?thesis by simp
qed

lemma sql_update_one_row:
  assumes "wf_table t" and "g \<in> set (tbl_rows t)" and "goal_id g = gid" and "user_id g = uid"
  shows "snd (sql_update uid gid t)
         = t\<lparr>tbl_rows := map (\<lambda>x. if x = g then g\<lparr>is_done := 1\<rparr> else x) (tbl_rows t)\<rparr>"
proof -
  have "matches uid gid x \<longleftrightarrow> x = g" if "x \<in> set (tbl_rows t)" for x
    using row_by_id_unique [OF assms(1) that assms(2)] assms(3,4)
    by (auto simp: matches_def)
  then have "map (\<lambda>x. if matches uid gid x then x\<lparr>is_done := 1\<rparr> else x) (tbl_rows t)
             = map (\<lambda>x. if x = g then g\<lparr>is_done := 1\<rparr> else x) (tbl_rows t)"
    by (intro map_cong) auto
  then show ?thesis by (simp add: sql_update_def)
qed

text \<open>
  C5 (\<open>mark_done\<close> twice). For a goal \<open>g\<close> of user \<open>uid\<close> with id \<open>gid\<close>, the first call of
  \<open>mark_done uid gid\<close> returns 1 and so does the second: the count is that of the rows
  matched, not of the rows changed. The first call leaves the table with \<open>is_done = 1\<close> in
  the row of \<open>g\<close> and nothing else changed, and the second call leaves that table as it
  is. (The calls return whenever their parameters can be bound.)
\<close>

theorem mark_done_idempotent:
  assumes "wf_table t" and "g \<in> set (tbl_rows t)" and "goal_id g = gid" and "user_id g = uid"
    and "t1 = t\<lparr>tbl_rows := map (\<lambda>x. if x = g then g\<lparr>is_done := 1\<rparr> else x) (tbl_rows t)\<rparr>"
  shows "mark_done uid gid t
           = (if sqlite_int gid \<and> sqlite_int uid then Inr (1, t1) else Inl OverflowError) \<and>
         mark_done uid gid t1
           = (if sqlite_int gid \<and> sqlite_int uid then Inr (1, t1) else Inl OverflowError) \<and>
         g\<lparr>is_done := 1\<rparr> \<in> set (tbl_rows t1)"
proof -
  note tw = sql_update_twice [OF assms(1-4)]
  have t1: "snd (sql_update uid gid t) = t1"
    using sql_update_one_row [OF assms(1-4)] assms(5) by simp
  from tw t1 have "sql_update uid gid t = (1, t1)" "sql_update uid gid t1 = (1, t1)"
    by (simp_all add: prod_eq_iff)
  moreover from tw t1 have "g\<lparr>is_done := 1\<rparr> \<in> set (tbl_rows t1)" by simp
  ultimately show ?thesis by (simp add: mark_done_def)
qed

lemma sql_rowcount:
  assumes "wf_table t"
  shows "(fst (sql_update uid gid t) = 0 \<or> fst (sql_update uid gid t) = 1) \<and>
         (fst (sql_delete uid gid t) = 0 \<or> fst (sql_delete uid gid t) = 1) \<and>
         (fst (sql_update uid gid t) = 1 \<longleftrightarrow>
            (\<exists>g \<in> set (tbl_rows t). goal_id g = gid \<and> user_id g = uid)) \<and>
         (fst (sql_delete uid gid t) = 1 \<longleftrightarrow>
            (\<exists>g \<in> set (tbl_rows t). goal_id g = gid \<and> user_id g = uid)) \<and>
         (fst (sql_delete uid gid t) = 1 \<longrightarrow>
            fst (sql_update uid' gid (run cs (snd (sql_delete uid gid t)))) = 0 \<and>
            fst (sql_delete uid' gid (run cs (snd (sql_delete uid gid t)))) = 0)"
proof -
  let ?n = "length (filter (matches uid gid) (tbl_rows t))"
  have le: "?n \<le> 1" using assms by (rule rowcount_le_1)
  have iff: "?n = 1 \<longleftrightarrow> (\<exists>g \<in> set (tbl_rows t). goal_id g = gid \<and> user_id g = uid)"
    using assms by (rule rowcount_eq_1_iff)
  have m: "fst (sql_update uid gid t) = int ?n" by (simp add: sql_update_def)
  have d: "fst (sql_delete uid gid t) = int ?n" by (simp add: sql_delete_def)
  have after: "fst (sql_update uid' gid (run cs (snd (sql_delete uid gid t)))) = 0 \<and>
               fst (sql_delete uid' gid (run cs (snd (sql_delete uid gid t)))) = 0"
    if "?n = 1"
  proof -
    from that iff obtain g where g: "g \<in> set (tbl_rows t)" "goal_id g = gid" "user_id g = uid"
      by blast
    have "goal_id h \<noteq> gid" if "h \<in> set (tbl_rows t)" "\<not> matches uid gid h" for h
    proof
      assume "goal_id h = gid"
      with row_by_id_unique [OF assms g(1) that(1)] g(2) have "h = g" by simp
      with g(2,3) that(2) show False by (simp add: matches_def)
    qed
    then have gone: "\<forall>h \<in> set (tbl_rows (snd (sql_delete uid gid t))). goal_id h \<noteq> gid"
      by (simp add: sql_delete_def)
    from assms g have "gid \<le> tbl_seq (snd (sql_delete uid gid t))"
      by (auto simp: wf_table_def sql_delete_def)
    with gone have "retired gid (snd (sql_delete uid gid t))" by (simp add: retired_def)
    then have "retired gid (run cs (snd (sql_delete uid gid t)))" by (rule retired_run)
    from isolation_retired [OF this, of uid'] show ?thesis by simp
  qed
  from le have "?n = 0 \<or> ?n = 1" by linarith
  then show ?thesis
  proof
    assume z: "?n = 0"
    with iff have "\<not> (\<exists>g \<in> set (tbl_rows t). goal_id g = gid \<and> user_id g = uid)" by simp
    with z show ?thesis unfolding m d by simp
  next
    assume o: "?n = 1"
    with iff have "\<exists>g \<in> set (tbl_rows t). goal_id g = gid \<and> user_id g = uid" by simp
    with o after [OF o] show ?thesis unfolding m d by simp
  qed
qed

text \<open>
  C10 (row counts), as amended. For a user id and a goal id in the range of an SQLite
  INTEGER, \<open>mark_done\<close> and \<open>delete_goal\<close> return, and what they return is 1 when the
  table holds a row with that id and that user and 0 when it does not. After a
  \<open>delete_goal\<close> that returned 1, and whatever store operations \<open>cs\<close> follow, \<open>mark_done\<close>
  and \<open>delete_goal\<close> on the same id return 0 for every user: AUTOINCREMENT never assigns
  the id again.
\<close>

theorem rowcount_zero_or_one:
  assumes "wf_table t" and "sqlite_int gid" and "sqlite_int uid"
  shows "map_sum id fst (mark_done uid gid t)
           = Inr (if (\<exists>g \<in> set (tbl_rows t). goal_id g = gid \<and> user_id g = uid) then 1 else 0) \<and>
         map_sum id fst (delete_goal uid gid t)
           = Inr (if (\<exists>g \<in> set (tbl_rows t). goal_id g = gid \<and> user_id g = uid) then 1 else 0) \<and>
         (delete_goal uid gid t = Inr (1, t') \<and> sqlite_int uid' \<longrightarrow>
            mark_done uid' gid (run cs t') = Inr (0, run cs t') \<and>
            delete_goal uid' gid (run cs t') = Inr (0, run cs t'))"
proof -
  note rc = sql_rowcount [OF assms(1), of uid gid uid' cs]
  let ?ex = "\<exists>g \<in> set (tbl_rows t). goal_id g = gid \<and> user_id g = uid"
  from rc have m: "fst (sql_update uid gid t) = (if ?ex then 1 else 0)" by auto
  from rc have d: "fst (sql_delete uid gid t) = (if ?ex then 1 else 0)" by auto
  have after: "mark_done uid' gid (run cs t') = Inr (0, run cs t') \<and>
               delete_goal uid' gid (run cs t') = Inr (0, run cs t')"
    if del: "delete_goal uid gid t = Inr (1, t')" and u: "sqlite_int uid'"
  proof -
    from del assms(2,3) have s: "sql_delete uid gid t = (1, t')"
      by (simp add: delete_goal_def)
    then have "fst (sql_delete uid gid t) = 1" "snd (sql_delete uid gid t) = t'" by simp_all
    with rc have z: "fst (sql_update uid' gid (run cs t')) = 0"
        "fst (sql_delete uid' gid (run cs t')) = 0"
      by simp_all
    have gone: "\<forall>x \<in> set (tbl_rows (run cs t')). \<not> matches uid' gid x"
      using z(1) by (simp add: sql_update_def filter_empty_conv)
    then have "snd (sql_update uid' gid (run cs t')) = run cs t'"
        "snd (sql_delete uid' gid (run cs t')) = run cs t'"
      by (simp_all add: sql_update_def sql_delete_def map_idI filter_id_conv)
    with z have "sql_update uid' gid (run cs t') = (0, run cs t')"
        "sql_delete uid' gid (run cs t') = (0, run cs t')"
      by (simp_all add: prod_eq_iff)
    with assms(2) u show ?thesis by (simp add: mark_done_def delete_goal_def)
  qed
  from m d assms(2,3) have "map_sum id fst (mark_done uid gid t) = Inr (if ?ex then 1 else 0)"
      "map_sum id fst (delete_goal uid gid t) = Inr (if ?ex then 1 else 0)"
    by (simp_all add: mark_done_def delete_goal_def)
  with after show ?thesis by blast
qed

text \<open>
  The id 9223372036854775808 (2 to the power 63), which \<open>/done\<close> passes on when it is typed, cannot be bound: both
  functions raise \<open>OverflowError\<close> instead of returning a count.
\<close>

theorem rowcount_overflow_counterexample:
  "mark_done 10 9223372036854775808 two_goals = Inl OverflowError \<and>
   delete_goal 10 9223372036854775808 two_goals = Inl OverflowError"
  by (simp add: mark_done_def delete_goal_def sqlite_int_def)

lemma two_goals_run:
  "run [AddGoal 10 [104, 105] 1000, AddGoal 20 [121, 111] 2000] (init_db None) = two_goals"
  by (simp add: init_db_def empty_table_def add_goal_def next_rowid_def two_goals_def
      goal_A_def goal_B_def)

lemma wf_two_goals: "wf_table two_goals"
  by (simp add: wf_table_def two_goals_def goal_A_def goal_B_def)

lemma sqlite_int_small [simp]:
  "sqlite_int 1" "sqlite_int 2" "sqlite_int 3" "sqlite_int 7" "sqlite_int 10" "sqlite_int 20"
  "sqlite_int 30"
  by (simp_all add: sqlite_int_def)

theorem ownership_isolation_witness:
  "wf_table empty_table \<and> (10::int) \<noteq> 20 \<and>
   add_goal 10 [104, 105] 1000 empty_table = (1, \<lparr>tbl_rows = [goal_A], tbl_seq = 1\<rparr>) \<and>
   list_goals 20 (run [AddGoal 20 [121, 111] 2000] \<lparr>tbl_rows = [goal_A], tbl_seq = 1\<rparr>)
     = [(2, [121, 111], 0)] \<and>
   mark_done 20 1 (run [AddGoal 20 [121, 111] 2000] \<lparr>tbl_rows = [goal_A], tbl_seq = 1\<rparr>)
     = Inr (0, two_goals) \<and>
   delete_goal 20 1 (run [AddGoal 20 [121, 111] 2000] \<lparr>tbl_rows = [goal_A], tbl_seq = 1\<rparr>)
     = Inr (0, two_goals)"
proof -
  have h1: "wf_table empty_table" by (rule wf_empty_table)
  have h2: "(10::int) \<noteq> 20" by simp
  have h3: "add_goal 10 [104, 105] 1000 empty_table = (1, \<lparr>tbl_rows = [goal_A], tbl_seq = 1\<rparr>)"
    by (simp add: add_goal_def next_rowid_def empty_table_def goal_A_def)
  have r: "run [AddGoal 20 [121, 111] 2000] \<lparr>tbl_rows = [goal_A], tbl_seq = 1\<rparr> = two_goals"
    by (simp add: add_goal_def next_rowid_def two_goals_def goal_A_def goal_B_def)
  have l: "list_goals 20 two_goals = [(2, [121, 111], 0)]"
    by (simp add: list_goals_def two_goals_def goal_A_def goal_B_def)
  from ownership_isolation [OF h1 h2 h3, of "[AddGoal 20 [121, 111] 2000]"] h1 h3 r l
  show ?thesis by simp
qed

theorem immutability_frame_witness:
  "wf_table two_goals \<and> goal_A \<in> set (tbl_rows two_goals) \<and>
   goal_A\<lparr>is_done := 1\<rparr> \<in> set (tbl_rows (run [MarkDone 10 1, DeleteGoal 20 2] two_goals)) \<and>
   goal_id (goal_A\<lparr>is_done := 1\<rparr>) = goal_id goal_A \<and>
   user_id (goal_A\<lparr>is_done := 1\<rparr>) = user_id goal_A \<and>
   goal_text (goal_A\<lparr>is_done := 1\<rparr>) = goal_text goal_A \<and>
   created_at (goal_A\<lparr>is_done := 1\<rparr>) = created_at goal_A \<and>
   is_done goal_A = 0 \<and> is_done (goal_A\<lparr>is_done := 1\<rparr>) = 1 \<and>
   MarkDone (user_id goal_A) (goal_id goal_A) \<in> set [MarkDone 10 1, DeleteGoal 20 2]"
proof -
  have h1: "wf_table two_goals" by (rule wf_two_goals)
  have h2: "goal_A \<in> set (tbl_rows two_goals)" by (simp add: two_goals_def)
  have h3: "goal_A\<lparr>is_done := 1\<rparr> \<in> set (tbl_rows (run [MarkDone 10 1, DeleteGoal 20 2] two_goals))"
    by (simp add: two_goals_def goal_A_def goal_B_def mark_done_def delete_goal_def
        sql_update_def sql_delete_def matches_def)
  have h4: "goal_id (goal_A\<lparr>is_done := 1\<rparr>) = goal_id goal_A" by simp
  from immutability_frame [OF h1 h2 h3 h4] h1 h2 h3 show ?thesis
    by (simp add: goal_A_def)
qed

theorem mark_done_idempotent_witness:
  "wf_table two_goals \<and> goal_A \<in> set (tbl_rows two_goals) \<and> goal_id goal_A = 1 \<and>
   user_id goal_A = 10 \<and>
   mark_done 10 1 two_goals = Inr (1, two_goals\<lparr>tbl_rows := [goal_A\<lparr>is_done := 1\<rparr>, goal_B]\<rparr>) \<and>
   mark_done 10 1 (two_goals\<lparr>tbl_rows := [goal_A\<lparr>is_done := 1\<rparr>, goal_B]\<rparr>)
     = Inr (1, two_goals\<lparr>tbl_rows := [goal_A\<lparr>is_done := 1\<rparr>, goal_B]\<rparr>)"
proof -
  have h1: "wf_table two_goals" by (rule wf_two_goals)
  have h2: "goal_A \<in> set (tbl_rows two_goals)" by (simp add: two_goals_def)
  have h3: "goal_id goal_A = 1" by (simp add: goal_A_def)
  have h4: "user_id goal_A = 10" by (simp add: goal_A_def)
  have h5: "two_goals\<lparr>tbl_rows := [goal_A\<lparr>is_done := 1\<rparr>, goal_B]\<rparr>
            = two_goals\<lparr>tbl_rows := map (\<lambda>x. if x = goal_A then goal_A\<lparr>is_done := 1\<rparr> else x)
                                         (tbl_rows two_goals)\<rparr>"
    by (simp add: two_goals_def goal_A_def goal_B_def)
  from mark_done_idempotent [OF h1 h2 h3 h4 h5] h1 h2 h3 h4 show ?thesis by simp
qed

theorem rowcount_zero_or_one_witness:
  "wf_table two_goals \<and> sqlite_int 1 \<and> sqlite_int 10 \<and>
   map_sum id fst (mark_done 10 1 two_goals) = Inr 1 \<and>
   map_sum id fst (mark_done 20 1 two_goals) = Inr 0 \<and>
   map_sum id fst (delete_goal 10 7 two_goals) = Inr 0 \<and>
   delete_goal 10 1 two_goals = Inr (1, two_goals\<lparr>tbl_rows := [goal_B]\<rparr>) \<and>
   mark_done 10 1 (run [AddGoal 10 [104] 3000] (two_goals\<lparr>tbl_rows := [goal_B]\<rparr>))
     = Inr (0, run [AddGoal 10 [104] 3000] (two_goals\<lparr>tbl_rows := [goal_B]\<rparr>)) \<and>
   delete_goal 10 1 (run [AddGoal 10 [104] 3000] (two_goals\<lparr>tbl_rows := [goal_B]\<rparr>))
     = Inr (0, run [AddGoal 10 [104] 3000] (two_goals\<lparr>tbl_rows := [goal_B]\<rparr>))"
proof -
  have h1: "wf_table two_goals" by (rule wf_two_goals)
  have a: "\<exists>g \<in> set (tbl_rows two_goals). goal_id g = 1 \<and> user_id g = 10"
    by (simp add: two_goals_def goal_A_def)
  have b: "\<not> (\<exists>g \<in> set (tbl_rows two_goals). goal_id g = 1 \<and> user_id g = 20)"
    by (simp add: two_goals_def goal_A_def goal_B_def)
  have c: "\<not> (\<exists>g \<in> set (tbl_rows two_goals). goal_id g = 7 \<and> user_id g = 10)"
    by (simp add: two_goals_def goal_A_def goal_B_def)
  have d: "delete_goal 10 1 two_goals = Inr (1, two_goals\<lparr>tbl_rows := [goal_B]\<rparr>)"
    by (simp add: delete_goal_def sql_delete_def matches_def two_goals_def goal_A_def goal_B_def)
  from rowcount_zero_or_one [OF h1, of 1 10 "two_goals\<lparr>tbl_rows := [goal_B]\<rparr>" 10
        "[AddGoal 10 [104] 3000]"]
    rowcount_zero_or_one [OF h1, of 1 20 two_goals 10 "[]"]
    rowcount_zero_or_one [OF h1, of 7 10 two_goals 10 "[]"] h1 a b c d
  show ?thesis by simp
qed

lemma insort_key_snoc:
  "f a \<le> f x \<Longrightarrow> insort_key f a (ys @ [x]) = insort_key f a ys @ [x]"
  by (induction ys) simp_all

lemma sort_key_snoc:
  "\<forall>y \<in> set ys. f y \<le> f x \<Longrightarrow> sort_key f (ys @ [x]) = sort_key f ys @ [x]"
  by (induction ys) (simp_all add: insort_key_snoc)

lemma list_goals_add_goal_same:
  "list_goals uid (snd (add_goal uid body now t))
   = (fst (add_goal uid body now t), body, 0) # list_goals uid t"
proof -
  let ?new = "\<lparr>goal_id = next_rowid t, user_id = uid, goal_text = body, is_done = 0,
              created_at = now\<rparr>"
  let ?own = "filter (\<lambda>g. user_id g = uid) (tbl_rows t)"
  have "\<forall>g \<in> set ?own. goal_id g \<le> goal_id ?new"
    using next_rowid_gt_rows [of _ t] by fastforce
  then have "sort_key goal_id (?own @ [?new]) = sort_key goal_id ?own @ [?new]"
    by (rule sort_key_snoc)
  then show ?thesis by (simp add: list_goals_def add_goal_def Let_def)
qed

lemma list_goals_add_goal_other:
  "v \<noteq> uid \<Longrightarrow> list_goals v (snd (add_goal uid body now t)) = list_goals v t"
  by (simp add: list_goals_def add_goal_def Let_def)

lemma distinct_map_sort_key:
  "distinct (map f (sort_key f xs)) = distinct (map f xs)"
  by (induction xs) (simp_all add: distinct_insort_key)

lemma list_goals_ids:
  "map fst (list_goals uid t)
   = rev (map goal_id (sort_key goal_id (filter (\<lambda>g. user_id g = uid) (tbl_rows t))))"
  by (simp add: list_goals_def rev_map comp_def)

lemma foldr_max_base: "b \<le> foldr max xs (b::int)"
  by (induction xs) auto

lemma foldr_max_snoc:
  "\<forall>x \<in> set xs. x \<le> a \<Longrightarrow> b \<le> a \<Longrightarrow> foldr max (xs @ [a]) (b::int) = a"
  by (induction xs) auto

lemma next_rowid_add_goal:
  "next_rowid (snd (add_goal uid body now t)) = next_rowid t + 1"
proof -
  let ?ids = "map goal_id (tbl_rows t)"
  have "\<forall>x \<in> set ?ids. x \<le> next_rowid t"
    using next_rowid_gt_rows [of _ t] by fastforce
  moreover have "0 \<le> next_rowid t"
    using foldr_max_base [of 0 ?ids] by (simp add: next_rowid_def)
  ultimately have "foldr max (?ids @ [next_rowid t]) 0 = next_rowid t"
    by (rule foldr_max_snoc)
  then show ?thesis
    by (simp add: add_goal_def Let_def next_rowid_def [of "\<lparr>tbl_rows = _, tbl_seq = _\<rparr>"])
qed

text \<open>
  C3 (\<open>list_goals\<close>). The result holds exactly the rows of the user, each once, with ids
  strictly decreasing; it is the empty list when the user has no row. Three goals
  created one after the other come back newest first, in front of what was listed
  before.
\<close>

theorem list_goals_newest_first:
  assumes "wf_table t"
  shows "set (list_goals uid t)
           = (\<lambda>g. (goal_id g, goal_text g, is_done g)) ` {g \<in> set (tbl_rows t). user_id g = uid} \<and>
         length (list_goals uid t) = length (filter (\<lambda>g. user_id g = uid) (tbl_rows t)) \<and>
         sorted_wrt (>) (map fst (list_goals uid t)) \<and>
         ((\<forall>g \<in> set (tbl_rows t). user_id g \<noteq> uid) \<longrightarrow> list_goals uid t = []) \<and>
         list_goals uid (run [AddGoal uid x1 n1, AddGoal uid x2 n2, AddGoal uid x3 n3] t)
           = [(next_rowid t + 2, x3, 0), (next_rowid t + 1, x2, 0), (next_rowid t, x1, 0)]
             @ list_goals uid t"
proof -
  let ?own = "filter (\<lambda>g. user_id g = uid) (tbl_rows t)"
  have s: "set (list_goals uid t)
           = (\<lambda>g. (goal_id g, goal_text g, is_done g)) ` {g \<in> set (tbl_rows t). user_id g = uid}"
    by (simp add: list_goals_def)
  have l: "length (list_goals uid t) = length ?own"
    by (simp add: list_goals_def)
  have "distinct (map goal_id ?own)"
    using assms by (simp add: wf_table_def distinct_map_filter)
  then have "distinct (map goal_id (sort_key goal_id ?own))"
    by (simp only: distinct_map_sort_key)
  moreover have "sorted (map goal_id (sort_key goal_id ?own))" by (rule sorted_sort_key)
  ultimately have "sorted_wrt (<) (map goal_id (sort_key goal_id ?own))"
    by (simp only: strict_sorted_iff)
  then have o: "sorted_wrt (>) (map fst (list_goals uid t))"
    by (simp add: list_goals_ids sorted_wrt_rev)
  have e: "(\<forall>g \<in> set (tbl_rows t). user_id g \<noteq> uid) \<longrightarrow> list_goals uid t = []"
    by (simp add: list_goals_def filter_empty_conv)
  let ?t1 = "snd (add_goal uid x1 n1 t)"
  let ?t2 = "snd (add_goal uid x2 n2 ?t1)"
  let ?t3 = "snd (add_goal uid x3 n3 ?t2)"
  have i: "fst (add_goal uid body now u) = next_rowid u" for body now u
    by (simp add: add_goal_def Let_def)
  have "list_goals uid ?t3 = (next_rowid ?t2, x3, 0) # list_goals uid ?t2"
    by (simp only: list_goals_add_goal_same i)
  also have "list_goals uid ?t2 = (next_rowid ?t1, x2, 0) # list_goals uid ?t1"
    by (simp only: list_goals_add_goal_same i)
  also have "list_goals uid ?t1 = (next_rowid t, x1, 0) # list_goals uid t"
    by (simp only: list_goals_add_goal_same i)
  finally have three:
    "list_goals uid (run [AddGoal uid x1 n1, AddGoal uid x2 n2, AddGoal uid x3 n3] t)
     = [(next_rowid t + 2, x3, 0), (next_rowid t + 1, x2, 0), (next_rowid t, x1, 0)]
       @ list_goals uid t"
    by (simp add: next_rowid_add_goal)
  from s l o e three show ?thesis by simp
qed

theorem list_goals_newest_first_witness:
  "wf_table two_goals \<and>
   list_goals 10 two_goals = [(1, [104, 105], 0)] \<and>
   list_goals 30 two_goals = [] \<and>
   list_goals 30 (run [AddGoal 30 [97] 1, AddGoal 30 [98] 2, AddGoal 30 [99] 3] two_goals)
     = [(5, [99], 0), (4, [98], 0), (3, [97], 0)]"
proof -
  have h: "wf_table two_goals" by (rule wf_two_goals)
  have n: "next_rowid two_goals = 3"
    by (simp add: next_rowid_def two_goals_def goal_A_def goal_B_def)
  have e: "\<forall>g \<in> set (tbl_rows two_goals). user_id g \<noteq> 30"
    by (simp add: two_goals_def goal_A_def goal_B_def)
  have a: "list_goals 10 two_goals = [(1, [104, 105], 0)]"
    by (simp add: list_goals_def two_goals_def goal_A_def goal_B_def)
  from list_goals_newest_first [OF h, of 30 "[97]" 1 "[98]" 2 "[99]" 3] h n e a
  show ?thesis by simp
qed

text \<open>
  C4 (\<open>add_goal\<close>). The call appends one row with the given user and text, \<open>is_done = 0\<close>
  and \<open>created_at\<close> the instant read inside the call, and returns the id of that row; the
  id is larger than every id in the table and than the AUTOINCREMENT counter. An instant
  \<open>start\<close> that is not after the clock reading is not after \<open>created_at\<close>.
\<close>

theorem add_goal_creates:
  "tbl_rows (snd (add_goal uid body now t))
     = tbl_rows t @ [\<lparr>goal_id = fst (add_goal uid body now t), user_id = uid, goal_text = body,
                      is_done = 0, created_at = now\<rparr>] \<and>
   (\<forall>g \<in> set (tbl_rows t). goal_id g < fst (add_goal uid body now t)) \<and>
   tbl_seq t < fst (add_goal uid body now t) \<and>
   tbl_seq (snd (add_goal uid body now t)) = fst (add_goal uid body now t) \<and>
   (start \<le> now \<longrightarrow> start \<le> created_at (last (tbl_rows (snd (add_goal uid body now t)))))"
  using next_rowid_gt_rows [of _ t] next_rowid_gt_seq [of t]
  by (simp add: add_goal_def Let_def)

theorem add_goal_creates_witness:
  "add_goal 10 [104] 3000 two_goals
     = (3, \<lparr>tbl_rows = [goal_A, goal_B, \<lparr>goal_id = 3, user_id = 10, goal_text = [104],
                                         is_done = 0, created_at = 3000\<rparr>], tbl_seq = 3\<rparr>) \<and>
   list_all (\<lambda>g. goal_id g < 3) (tbl_rows two_goals) \<and>
   (2500::int) \<le> 3000 \<and>
   2500 \<le> created_at (last (tbl_rows (snd (add_goal 10 [104] 3000 two_goals))))"
proof -
  have v: "add_goal 10 [104] 3000 two_goals
     = (3, \<lparr>tbl_rows = [goal_A, goal_B, \<lparr>goal_id = 3, user_id = 10, goal_text = [104],
                                         is_done = 0, created_at = 3000\<rparr>], tbl_seq = 3\<rparr>)"
    by (simp add: add_goal_def next_rowid_def two_goals_def goal_A_def goal_B_def)
  from add_goal_creates [of 10 "[104]" 3000 two_goals 2500] v show ?thesis
    by (simp add: list_all_iff)
qed

section \<open>Properties of the handlers, the completion client and the dispatcher\<close>

lemma strip_blank: "list_all (isspace_cp U) s \<Longrightarrow> strip U s = []"
proof -
  assume "list_all (isspace_cp U) s"
  then have d: "dropWhile (isspace_cp U) s = []"
    by (induction s) simp_all
  show ?thesis unfolding strip_def d by simp
qed

lemma strip_or_empty_blank:
  "args = None \<or> (\<exists>a. args = Some a \<and> list_all (isspace_cp U) a) \<Longrightarrow>
   strip U (or_empty args) = []"
proof (cases args)
  case None
  then show ?thesis by (simp add: or_empty_def strip_def)
next
  case (Some a)
  assume "args = None \<or> (\<exists>a. args = Some a \<and> list_all (isspace_cp U) a)"
  with Some have "list_all (isspace_cp U) a" by simp
  then have "strip U a = []" by (rule strip_blank)
  with Some show ?thesis by (simp add: or_empty_def)
qed

lemma isdigit_ascii:
  "c \<in> set a \<Longrightarrow> c < 128 \<Longrightarrow> \<not> (48 \<le> c \<and> c \<le> 57) \<Longrightarrow> \<not> isdigit U a"
  by (auto simp: isdigit_def list_all_iff isdigit_cp_def)

text \<open>
  What the handlers do with the arguments that their checks reject. When
  \<open>command.args\<close> is missing, empty or white space only, \<open>cmd_ask\<close> and \<open>cmd_addgoal\<close>
  send their usage hint, send no request to the completion service and leave the table as
  it is. When \<open>command.args\<close> is missing or \<open>str.isdigit\<close> is false of it, \<open>cmd_done\<close> and
  \<open>cmd_del\<close> send their usage hint, with no request and no change of the table either. A
  string with an ASCII character other than \<open>0\<close> to \<open>9\<close>, the minus sign among them, is
  such an argument.
\<close>

lemma usage_hints:
  "((args = None \<or> (\<exists>a. args = Some a \<and> list_all (isspace_cp (env_ucd E)) a)) \<longrightarrow>
      cmd_ask E m args t
        = \<lparr>sent = [markdown ASK_USAGE], requests = [], store = t, raised = None\<rparr> \<and>
      cmd_addgoal E m args t
        = \<lparr>sent = [markdown ADDGOAL_USAGE], requests = [], store = t, raised = None\<rparr>) \<and>
   ((args = None \<or> (\<exists>a. args = Some a \<and> \<not> isdigit (env_ucd E) a)) \<longrightarrow>
      cmd_done E m args t
        = \<lparr>sent = [markdown DONE_USAGE], requests = [], store = t, raised = None\<rparr> \<and>
      cmd_del E m args t
        = \<lparr>sent = [markdown DEL_USAGE], requests = [], store = t, raised = None\<rparr>) \<and>
   ((\<exists>c \<in> set a. c < 128 \<and> \<not> (48 \<le> c \<and> c \<le> 57)) \<longrightarrow>
      \<not> isdigit (env_ucd E) a \<and>
      cmd_done E m (Some a) t
        = \<lparr>sent = [markdown DONE_USAGE], requests = [], store = t, raised = None\<rparr> \<and>
      cmd_del E m (Some a) t
        = \<lparr>sent = [markdown DEL_USAGE], requests = [], store = t, raised = None\<rparr>)"
proof (intro conjI impI)
  assume b: "args = None \<or> (\<exists>a. args = Some a \<and> list_all (isspace_cp (env_ucd E)) a)"
  then have e: "strip (env_ucd E) (or_empty args) = []" by (rule strip_or_empty_blank)
  show "cmd_ask E m args t
        = \<lparr>sent = [markdown ASK_USAGE], requests = [], store = t, raised = None\<rparr>"
    by (simp add: cmd_ask_def e answered_def)
  show "cmd_addgoal E m args t
        = \<lparr>sent = [markdown ADDGOAL_USAGE], requests = [], store = t, raised = None\<rparr>"
    by (simp add: cmd_addgoal_def e answered_def)
next
  assume d: "args = None \<or> (\<exists>a. args = Some a \<and> \<not> isdigit (env_ucd E) a)"
  then show "cmd_done E m args t
        = \<lparr>sent = [markdown DONE_USAGE], requests = [], store = t, raised = None\<rparr>"
    by (auto simp: cmd_done_def answered_def)
  from d show "cmd_del E m args t
        = \<lparr>sent = [markdown DEL_USAGE], requests = [], store = t, raised = None\<rparr>"
    by (auto simp: cmd_del_def answered_def)
next
  assume "\<exists>c \<in> set a. c < 128 \<and> \<not> (48 \<le> c \<and> c \<le> 57)"
  then show nd: "\<not> isdigit (env_ucd E) a" by (blast dest: isdigit_ascii)
  then show "cmd_done E m (Some a) t
        = \<lparr>sent = [markdown DONE_USAGE], requests = [], store = t, raised = None\<rparr>"
    by (simp add: cmd_done_def answered_def)
  from nd show "cmd_del E m (Some a) t
        = \<lparr>sent = [markdown DEL_USAGE], requests = [], store = t, raised = None\<rparr>"
    by (simp add: cmd_del_def answered_def)
qed

lemma usage_hints_example:
  "list_all (isspace_cp (env_ucd env_echo)) (ascii ''  '' @ [160]) \<and>
   cmd_ask env_echo \<lparr>from_user_id = 10, msg_text = None\<rparr> (Some (ascii ''  '' @ [160])) two_goals
     = \<lparr>sent = [markdown ASK_USAGE], requests = [], store = two_goals, raised = None\<rparr> \<and>
   cmd_addgoal env_echo \<lparr>from_user_id = 10, msg_text = None\<rparr> (Some (ascii ''  '' @ [160])) two_goals
     = \<lparr>sent = [markdown ADDGOAL_USAGE], requests = [], store = two_goals, raised = None\<rparr> \<and>
   \<not> isdigit (env_ucd env_echo) (ascii ''-1'') \<and>
   cmd_done env_echo \<lparr>from_user_id = 10, msg_text = None\<rparr> (Some (ascii ''-1'')) two_goals
     = \<lparr>sent = [markdown DONE_USAGE], requests = [], store = two_goals, raised = None\<rparr> \<and>
   cmd_del env_echo \<lparr>from_user_id = 10, msg_text = None\<rparr> (Some (ascii ''-1'')) two_goals
     = \<lparr>sent = [markdown DEL_USAGE], requests = [], store = two_goals, raised = None\<rparr>"
proof -
  have b: "list_all (isspace_cp (env_ucd env_echo)) (ascii ''  '' @ [160])"
    by (simp add: env_echo_def ucd_fragment_def ascii_def isspace_cp_def)
  have d: "\<not> isdigit (env_ucd env_echo) (ascii ''-1'')"
    by (simp add: isdigit_def ascii_def isdigit_cp_def)
  from usage_hints [of "Some (ascii ''  '' @ [160])" env_echo
      "\<lparr>from_user_id = 10, msg_text = None\<rparr>" two_goals "[]"]
    usage_hints [of "Some (ascii ''-1'')" env_echo
      "\<lparr>from_user_id = 10, msg_text = None\<rparr>" two_goals "[]"] b d
  show ?thesis by simp
qed

lemma digits_value_None:
  "\<exists>c \<in> set a. decimal_cp U c = None \<Longrightarrow> digits_value U a n = None"
  by (induction a arbitrary: n) (auto split: option.splits)

text \<open>
  C6 (input errors), where the code departs from it. \<open>str.isdigit\<close> accepts characters
  that \<open>int\<close> does not read: a digit without a decimal value, such as superscript two.
  An argument of digits with such a character among them is not a number, yet it passes
  the check of \<open>cmd_done\<close> and \<open>cmd_del\<close>; \<open>int\<close> then raises \<open>ValueError\<close>, and the handler
  ends without a reply: no usage hint is sent. No request is made and the table is left
  as it is.
\<close>

theorem digit_without_value_raises:
  assumes "isdigit (env_ucd E) a" and "\<exists>c \<in> set a. decimal_cp (env_ucd E) c = None"
  shows "cmd_done E m (Some a) t
           = \<lparr>sent = [], requests = [], store = t, raised = Some ValueError\<rparr> \<and>
         cmd_del E m (Some a) t
           = \<lparr>sent = [], requests = [], store = t, raised = Some ValueError\<rparr>"
proof -
  from assms(1) have ne: "a \<noteq> []" by (simp add: isdigit_def)
  from assms(2) have "digits_value (env_ucd E) a 0 = None" by (rule digits_value_None)
  with ne have "py_int (env_ucd E) a = Inl ValueError" by (simp add: py_int_def)
  with assms(1) ne show ?thesis by (simp add: cmd_done_def cmd_del_def)
qed

theorem digit_without_value_raises_witness:
  "isdigit (env_ucd env_echo) [178] \<and> decimal_cp (env_ucd env_echo) 178 = None \<and>
   cmd_done env_echo \<lparr>from_user_id = 10, msg_text = None\<rparr> (Some [178]) two_goals
     = \<lparr>sent = [], requests = [], store = two_goals, raised = Some ValueError\<rparr> \<and>
   cmd_del env_echo \<lparr>from_user_id = 10, msg_text = None\<rparr> (Some [178]) two_goals
     = \<lparr>sent = [], requests = [], store = two_goals, raised = Some ValueError\<rparr>"
proof -
  have d: "isdigit (env_ucd env_echo) [178]"
    by (simp add: isdigit_def isdigit_cp_def env_echo_def ucd_fragment_def)
  have n: "decimal_cp (env_ucd env_echo) 178 = None"
    by (simp add: decimal_cp_def env_echo_def ucd_fragment_def)
  then have e: "\<exists>c \<in> set [178]. decimal_cp (env_ucd env_echo) c = None" by simp
  from digit_without_value_raises [OF d e, of "\<lparr>from_user_id = 10, msg_text = None\<rparr>" two_goals]
    d n show ?thesis by simp
qed

text \<open>
  C7 (remote failure). When the completion call raises, returns no choice or returns a
  choice without content, \<open>ask_openai\<close> returns the apology, and \<open>cmd_ask\<close> on a
  non-empty question sends the notice and then the apology and ends without an
  exception. The apology is not the empty string.
\<close>

theorem remote_failure_gives_apology:
  "((api (openai_request prompt) = ApiException \<or>
     api (openai_request prompt) = ApiResponse [] \<or>
     (\<exists>cs. api (openai_request prompt) = ApiResponse (None # cs))) \<longrightarrow>
      snd (ask_openai U api prompt) = APOLOGY) \<and>
   ((strip (env_ucd E) (or_empty args) \<noteq> [] \<and>
     (env_api E (openai_request (strip (env_ucd E) (or_empty args))) = ApiException \<or>
      env_api E (openai_request (strip (env_ucd E) (or_empty args))) = ApiResponse [] \<or>
      (\<exists>cs. env_api E (openai_request (strip (env_ucd E) (or_empty args)))
              = ApiResponse (None # cs)))) \<longrightarrow>
      cmd_ask E m args t
        = \<lparr>sent = [plain THINKING, plain (PLAIN APOLOGY)],
           requests = [openai_request (strip (env_ucd E) (or_empty args))],
           store = t, raised = None\<rparr>) \<and>
   APOLOGY \<noteq> []"
proof (intro conjI impI)
  assume "api (openai_request prompt) = ApiException \<or>
     api (openai_request prompt) = ApiResponse [] \<or>
     (\<exists>cs. api (openai_request prompt) = ApiResponse (None # cs))"
  then show "snd (ask_openai U api prompt) = APOLOGY"
    by (auto simp: ask_openai_def)
next
  let ?q = "strip (env_ucd E) (or_empty args)"
  assume a: "?q \<noteq> [] \<and>
     (env_api E (openai_request ?q) = ApiException \<or>
      env_api E (openai_request ?q) = ApiResponse [] \<or>
      (\<exists>cs. env_api E (openai_request ?q) = ApiResponse (None # cs)))"
  then have "ask_openai (env_ucd E) (env_api E) ?q = ([openai_request ?q], APOLOGY)"
    by (auto simp: ask_openai_def)
  with a show "cmd_ask E m args t
        = \<lparr>sent = [plain THINKING, plain (PLAIN APOLOGY)],
           requests = [openai_request ?q], store = t, raised = None\<rparr>"
    by (simp add: cmd_ask_def Let_def)
next
  show "APOLOGY \<noteq> []" by (simp add: APOLOGY_def)
qed

theorem remote_failure_gives_apology_witness:
  "api_down (openai_request (ascii ''Hi'')) = ApiException \<and>
   snd (ask_openai ucd_fragment api_down (ascii ''Hi'')) = APOLOGY \<and>
   strip (env_ucd env_down) (or_empty (Some (ascii '' Hi ''))) = ascii ''Hi'' \<and>
   cmd_ask env_down \<lparr>from_user_id = 10, msg_text = None\<rparr> (Some (ascii '' Hi '')) two_goals
     = \<lparr>sent = [plain THINKING, plain (PLAIN APOLOGY)],
        requests = [openai_request (ascii ''Hi'')], store = two_goals, raised = None\<rparr>"
proof -
  have d: "api_down (openai_request (ascii ''Hi'')) = ApiException"
    by (simp add: api_down_def)
  have s: "strip (env_ucd env_down) (or_empty (Some (ascii '' Hi ''))) = ascii ''Hi''"
    by (simp add: strip_def or_empty_def ascii_def isspace_cp_def)
  have e: "env_api env_down = api_down" by (simp add: env_down_def)
  from remote_failure_gives_apology [of api_down "ascii ''Hi''" ucd_fragment env_down
      "Some (ascii '' Hi '')" "\<lparr>from_user_id = 10, msg_text = None\<rparr>" two_goals] d s e
  show ?thesis by (simp add: ascii_def)
qed

text \<open>
  C8 (the request), as amended. \<open>ask_openai\<close> sends one request. Its messages are two: the
  system message, whose content is the fixed persona followed by the sentence
  \<open>Answer concisely in Ukrainian unless asked otherwise.\<close>, and the user message, whose
  content is the prompt. \<open>max_tokens\<close> is 600, \<open>temperature\<close> is 0.3, and the model is
  \<open>gpt-4o-mini\<close>.
\<close>

theorem two_message_request:
  "fst (ask_openai U api prompt) = [openai_request prompt] \<and>
   messages (openai_request prompt)
     = [\<lparr>msg_role = ascii ''system'', msg_content = SYSTEM_PROMPT\<rparr>,
        \<lparr>msg_role = ascii ''user'', msg_content = prompt\<rparr>] \<and>
   length (messages (openai_request prompt)) = 2 \<and>
   SYSTEM_PROMPT = ascii ''You are GPT-5 Thinking, a helpful planning assistant for productivity, goals and daily focus. '' @ ascii ''Answer concisely in Ukrainian unless asked otherwise.'' \<and>
   max_tokens (openai_request prompt) = Some 600 \<and>
   temperature (openai_request prompt) = Some (3 / 10) \<and>
   model (openai_request prompt) = ascii ''gpt-4o-mini''"
  by (simp add: ask_openai_def openai_request_def SYSTEM_PROMPT_def ascii_def)

theorem two_message_request_witness:
  "map msg_content (messages (openai_request (ascii ''Hello''))) = [SYSTEM_PROMPT, ascii ''Hello''] \<and>
   fst (ask_openai ucd_fragment api_echo (ascii ''Hello'')) = [openai_request (ascii ''Hello'')]"
  using two_message_request [of ucd_fragment api_echo "ascii ''Hello''"] by simp

text \<open>
  The system message that goes out with the prompt \<open>Hello\<close> names Ukrainian as the language
  of the answer; the word \<open>language\<close> does not occur in it.
\<close>

theorem system_prompt_counterexample:
  "map msg_content (messages (openai_request (ascii ''Hello''))) = [SYSTEM_PROMPT, ascii ''Hello''] \<and>
   \<not> sublist (ascii ''language'') SYSTEM_PROMPT \<and>
   suffix (ascii ''Answer concisely in Ukrainian unless asked otherwise.'') SYSTEM_PROMPT"
  by (simp add: openai_request_def SYSTEM_PROMPT_def ascii_def sublist_code suffix_def)

lemma trigger_append:
  "trigger F (hs @ hs') m = (case trigger F hs m of None \<Rightarrow> trigger F hs' m | Some r \<Rightarrow> Some r)"
  by (induction hs) (auto split: option.splits)

lemma trigger_above_main:
  "\<exists>cb args. trigger F handlers_above_main m = Some (cb, args) \<and> cb \<noteq> Ask_ai"
  by (simp add: handlers_above_main_def check_def split: option.split)

text \<open>
  C9 (the second handler for \<open>/ask\<close>). Whatever the command filter accepts, the
  dispatcher chooses the same handler from the whole list as from the handlers above
  \<open>main\<close>, it never chooses \<open>ask_ai\<close>, and the outcome of a message is the same with and
  without the registration at the end of the file.
\<close>

theorem second_ask_handler_unreachable:
  "trigger F handlers_of_file m = trigger F handlers_above_main m \<and>
   (\<forall>args. trigger F handlers_of_file m \<noteq> Some (Ask_ai, args)) \<and>
   feed_update F E handlers_of_file m t = feed_update F E handlers_above_main m t"
proof -
  from trigger_above_main [of F m]
  obtain cb args where r: "trigger F handlers_above_main m = Some (cb, args)" "cb \<noteq> Ask_ai"
    by blast
  then have eq: "trigger F handlers_of_file m = trigger F handlers_above_main m"
    by (simp add: handlers_of_file_def trigger_append)
  with r have "\<forall>args. trigger F handlers_of_file m \<noteq> Some (Ask_ai, args)" by simp
  moreover from eq have "feed_update F E handlers_of_file m t
                         = feed_update F E handlers_above_main m t"
    by (simp add: feed_update_def)
  ultimately show ?thesis using eq by simp
qed

theorem second_ask_handler_unreachable_witness:
  "trigger slash_filter handlers_of_file \<lparr>from_user_id = 10, msg_text = Some (ascii ''/ask Hi'')\<rparr>
     = Some (Cmd_ask, Some (ascii ''Hi'')) \<and>
   trigger slash_filter handlers_above_main \<lparr>from_user_id = 10, msg_text = Some (ascii ''/ask Hi'')\<rparr>
     = Some (Cmd_ask, Some (ascii ''Hi'')) \<and>
   feed_update slash_filter env_down handlers_of_file
       \<lparr>from_user_id = 10, msg_text = Some (ascii ''/ask Hi'')\<rparr> two_goals
     = \<lparr>sent = [plain THINKING, plain (PLAIN APOLOGY)],
        requests = [openai_request (ascii ''Hi'')], store = two_goals, raised = None\<rparr>"
proof -
  let ?m = "\<lparr>from_user_id = 10, msg_text = Some (ascii ''/ask Hi'')\<rparr>"
  have a: "trigger slash_filter handlers_above_main ?m = Some (Cmd_ask, Some (ascii ''Hi''))"
    by (simp add: handlers_above_main_def check_def slash_filter_def ascii_def isspace_cp_def)
  have b: "feed_update slash_filter env_down handlers_above_main ?m two_goals
     = \<lparr>sent = [plain THINKING, plain (PLAIN APOLOGY)],
        requests = [openai_request (ascii ''Hi'')], store = two_goals, raised = None\<rparr>"
    unfolding feed_update_def a
    by (simp add: call_def cmd_ask_def or_empty_def env_down_def ask_openai_def api_down_def
        strip_def ucd_fragment_def ascii_def isspace_cp_def)
  from second_ask_handler_unreachable [of slash_filter ?m env_down two_goals] a b
  show ?thesis by simp
qed

subsection \<open>Concrete runs\<close>

text \<open>
  A goal id of twenty digits is a number for \<open>isdigit\<close> and for \<open>int\<close>, and too large to
  be bound: \<open>cmd_done\<close> and \<open>cmd_del\<close> end with \<open>OverflowError\<close> and without a reply.
\<close>

lemma cmd_done_overflow:
  "cmd_done env_echo (user_30 []) (Some (ascii ''9223372036854775808'')) two_goals
     = \<lparr>sent = [], requests = [], store = two_goals, raised = Some OverflowError\<rparr>"
  "cmd_del env_echo (user_30 []) (Some (ascii ''9223372036854775808'')) two_goals
     = \<lparr>sent = [], requests = [], store = two_goals, raised = Some OverflowError\<rparr>"
  by (simp_all add: cmd_done_def cmd_del_def isdigit_def isdigit_cp_def py_int_def
      decimal_cp_def ascii_def user_30_def mark_done_def delete_goal_def sqlite_int_def)

text \<open>
  A user adds a goal, lists, marks it done, lists, deletes it and lists again, each
  message going through the dispatcher.
\<close>

lemma buy_milk_scenario:
  "feed_update slash_filter env_echo handlers_of_file (user_30 (ascii ''/addgoal Buy milk'')) two_goals
     = answered [plain (GOAL_ADDED 3)] (snd (add_goal 30 milk 3000 two_goals))"
  "feed_update slash_filter env_echo handlers_of_file (user_30 (ascii ''/goals''))
       (snd (add_goal 30 milk 3000 two_goals))
     = answered [markdown (GOAL_LINES [(False, 3, milk)])] (snd (add_goal 30 milk 3000 two_goals))"
  "feed_update slash_filter env_echo handlers_of_file (user_30 (ascii ''/done 3''))
       (snd (add_goal 30 milk 3000 two_goals))
     = answered [plain DONE_OK] (snd (sql_update 30 3 (snd (add_goal 30 milk 3000 two_goals))))"
  "feed_update slash_filter env_echo handlers_of_file (user_30 (ascii ''/goals''))
       (snd (sql_update 30 3 (snd (add_goal 30 milk 3000 two_goals))))
     = answered [markdown (GOAL_LINES [(True, 3, milk)])]
         (snd (sql_update 30 3 (snd (add_goal 30 milk 3000 two_goals))))"
  "feed_update slash_filter env_echo handlers_of_file (user_30 (ascii ''/del 3''))
       (snd (sql_update 30 3 (snd (add_goal 30 milk 3000 two_goals))))
     = answered [plain DELETED] (two_goals\<lparr>tbl_seq := 3\<rparr>)"
  "feed_update slash_filter env_echo handlers_of_file (user_30 (ascii ''/goals''))
       (two_goals\<lparr>tbl_seq := 3\<rparr>)
     = answered [markdown NO_GOALS] (two_goals\<lparr>tbl_seq := 3\<rparr>)"
  by (simp_all add: feed_update_def handlers_of_file_def handlers_above_main_def check_def
      slash_filter_def user_30_def milk_def ascii_def isspace_cp_def ucd_fragment_def
      call_def cmd_addgoal_def cmd_goals_def cmd_done_def cmd_del_def env_echo_def
      or_empty_def strip_def isdigit_def isdigit_cp_def py_int_def decimal_cp_def
      add_goal_def next_rowid_def list_goals_def mark_done_def delete_goal_def sqlite_int_def
      sql_update_def sql_delete_def matches_def
      two_goals_def goal_A_def goal_B_def answered_def)

end
